theory Spec2Isabelle
  imports
    Complex_Main
    "HOL-Library.Char_ord"
    "HOL-Library.List_Lexorder"
    "HOL-Library.Product_Lexorder"
begin

section \<open>JavaScript values used by the booking model\<close>

text \<open>
  A JavaScript number is modelled as an optional rational: \<open>None\<close> is \<open>NaN\<close>, on which
  every comparison is false. The numbers the availability check computes are an hour (an
  integer) plus a whole number of minutes divided by 60. For the hours of a time column
  and the minutes of a 32-bit integer column the rounding of a double is far below 1/60,
  so the two comparisons of the source come out on doubles as they do on rationals.
\<close>

type_synonym number = "rat option"

definition num_add :: "number \<Rightarrow> number \<Rightarrow> number" where
  "num_add a b = (case a of None \<Rightarrow> None | Some x \<Rightarrow> (case b of None \<Rightarrow> None | Some y \<Rightarrow> Some (x + y)))"

definition num_lt :: "number \<Rightarrow> number \<Rightarrow> bool" where
  "num_lt a b = (case a of None \<Rightarrow> False | Some x \<Rightarrow> (case b of None \<Rightarrow> False | Some y \<Rightarrow> x < y))"

definition num_gt :: "number \<Rightarrow> number \<Rightarrow> bool" where
  "num_gt a b = (case a of None \<Rightarrow> False | Some x \<Rightarrow> (case b of None \<Rightarrow> False | Some y \<Rightarrow> x > y))"

text \<open>\<open>duration / 60\<close> on an integer column value.\<close>

definition minutes_div_60 :: "int \<Rightarrow> number" where
  "minutes_div_60 d = Some (of_int d / 60)"

text \<open>
  \<open>parseInt(string)\<close> without a radix argument, after ECMAScript: leading white space is
  skipped, a sign is read, a \<open>0x\<close> prefix selects radix 16, then the longest prefix of
  digits is converted; no digit at all gives \<open>NaN\<close>.
\<close>

definition isWhiteSpace :: "char \<Rightarrow> bool" where
  "isWhiteSpace c = (c = CHR '' '' \<or> c = CHR 0x09 \<or> c = CHR 0x0A \<or> c = CHR 0x0B \<or> c = CHR 0x0C \<or> c = CHR 0x0D)"

fun index_of :: "char \<Rightarrow> string \<Rightarrow> nat option" where
  "index_of c [] = None"
| "index_of c (x # xs) = (if c = x then Some 0 else map_option Suc (index_of c xs))"

definition digitValue :: "char \<Rightarrow> nat option" where
  "digitValue c =
    (case index_of c ''0123456789abcdef'' of
       Some v \<Rightarrow> Some v
     | None \<Rightarrow> map_option (\<lambda>i. i + 10) (index_of c ''ABCDEF''))"

definition isRadixDigit :: "nat \<Rightarrow> char \<Rightarrow> bool" where
  "isRadixDigit R c = (case digitValue c of None \<Rightarrow> False | Some v \<Rightarrow> v < R)"

definition radixValue :: "nat \<Rightarrow> string \<Rightarrow> nat" where
  "radixValue R Z = foldl (\<lambda>acc c. acc * R + (case digitValue c of None \<Rightarrow> 0 | Some v \<Rightarrow> v)) 0 Z"

definition parseInt :: "string \<Rightarrow> number" where
  "parseInt inputString =
    (let S = dropWhile isWhiteSpace inputString;
         sign = (if take 1 S = ''-'' then - 1 else 1 :: int);
         S1 = (if take 1 S = ''+'' \<or> take 1 S = ''-'' then drop 1 S else S);
         hex = (take 2 S1 = ''0x'' \<or> take 2 S1 = ''0X'');
         R = (if hex then 16 else 10);
         S2 = (if hex then drop 2 S1 else S1);
         Z = takeWhile (isRadixDigit R) S2
     in if Z = [] then None else Some (of_int (sign * int (radixValue R Z))))"

text \<open>\<open>s.split(':')[0]\<close>: the part of \<open>s\<close> before its first colon, all of \<open>s\<close> without one.\<close>

definition split_colon_0 :: "string \<Rightarrow> string" where
  "split_colon_0 s = takeWhile (\<lambda>c. c \<noteq> CHR '':'') s"

text \<open>
  \<open>hour.toString()\<close> on a non-negative integer, and \<open>padStart\<close>. \<open>digitChar\<close> is only
  applied to numbers below 10.
\<close>

definition digitChar :: "nat \<Rightarrow> char" where
  "digitChar d = ''0123456789'' ! d"

function toString :: "nat \<Rightarrow> string" where
  "toString n = (if n < 10 then [digitChar n] else toString (n div 10) @ [digitChar (n mod 10)])"
  by pat_completeness auto
termination
  by (relation "measure id") auto

declare toString.simps [simp del]

definition padStart :: "nat \<Rightarrow> char \<Rightarrow> string \<Rightarrow> string" where
  "padStart targetLength c s = replicate (targetLength - length s) c @ s"

section \<open>Data model\<close>

text \<open>
  Rows of the \<open>services\<close> and \<open>bookings\<close> tables, after the migrations. A calendar date is
  (year, month, day) under the lexicographic order; a time of day is the string the
  driver returns; a timestamp is a number of clock ticks; decimals are rationals (a
  value read from a \<open>decimal(10, 2)\<close> column has two decimal places).
\<close>

type_synonym date = "nat \<times> nat \<times> nat"
type_synonym timestamp = nat

datatype status = Pending | Confirmed | InProgress | Completed | Cancelled | NoShow

datatype priority = Low | Medium | High | Emergency

datatype service_type = LockInstallation | LockRepair | LockMaintenance | EmergencyService

datatype category = Installation | Repair | Maintenance | EmergencyCat

record service_row =
  service_id_pk :: string
  name :: string
  description :: string
  category :: category
  base_price :: rat
  estimated_duration :: int
  is_active :: bool
  is_available_for_booking :: bool

record booking_row =
  booking_id :: string
  user_id :: "string option"
  service_id :: "string option"
  service :: string
  service_type :: service_type
  booking_date :: date
  booking_time :: string
  duration :: int
  status :: status
  priority :: priority
  customer_name :: string
  customer_phone :: string
  customer_email :: string
  service_address :: string
  service_description :: "string option"
  special_instructions :: "string option"
  estimated_cost :: "rat option"
  actual_cost :: "rat option"
  assigned_technician :: "string option"
  booking_notes :: "string option"
  confirmed_at :: "timestamp option"
  started_at :: "timestamp option"
  completed_at :: "timestamp option"
  created_at :: timestamp
  updated_at :: timestamp

record db =
  services :: "service_row list"
  bookings :: "booking_row list"

text \<open>
  The \<open>CustomError\<close>s the booking code raises:
  \<open>ServiceNotAvailable\<close> is ('Service not available', 404),
  \<open>SlotUnavailable\<close> is ('Selected time slot is not available', 400),
  \<open>ServiceNotFound\<close> is ('Service not found', 404),
  \<open>BookingNotFound\<close> is ('Booking not found', 404).
\<close>

datatype error = ServiceNotAvailable | SlotUnavailable | ServiceNotFound | BookingNotFound

record slot =
  time :: string
  available :: bool

section \<open>BookingModel.getAvailableSlots\<close>

text \<open>The \<open>for (let hour = startHour; hour < endHour; hour++)\<close> loop pushing onto \<open>timeSlots\<close>.\<close>

function gen_timeSlots :: "nat \<Rightarrow> nat \<Rightarrow> slot list \<Rightarrow> slot list" where
  "gen_timeSlots hour endHour timeSlots =
    (if hour < endHour
     then gen_timeSlots (hour + 1) endHour
            (timeSlots @ [\<lparr>time = padStart 2 CHR ''0'' (toString hour) @ '':00'', available = True\<rparr>])
     else timeSlots)"
  by pat_completeness auto
termination
  by (relation "measure (\<lambda>(hour, endHour, timeSlots). endHour - hour)") auto

declare gen_timeSlots.simps [simp del]

text \<open>
  The \<open>.where('booking_date', date).where('service', service).whereNotIn('status',
  ['cancelled', 'no_show']).select('booking_time', 'duration')\<close> query.
\<close>

definition existingBookings :: "db \<Rightarrow> string \<Rightarrow> date \<Rightarrow> (string \<times> int) list" where
  "existingBookings st svc date =
    map (\<lambda>b. (booking_time b, duration b))
      (filter (\<lambda>b. booking_date b = date \<and> service b = svc \<and> status b \<notin> {Cancelled, NoShow})
         (bookings st))"

definition hasConflict :: "int \<Rightarrow> (string \<times> int) list \<Rightarrow> slot \<Rightarrow> bool" where
  "hasConflict dur existing sl =
    (let slotStart = parseInt (split_colon_0 (time sl));
         slotEnd = num_add slotStart (minutes_div_60 dur)
     in list_ex (\<lambda>(bt, bd).
          let bookingHour = parseInt (split_colon_0 bt);
              bookingEnd = num_add bookingHour (minutes_div_60 bd)
          in num_lt slotStart bookingEnd \<and> num_gt slotEnd bookingHour) existing)"

definition getAvailableSlots :: "db \<Rightarrow> string \<Rightarrow> date \<Rightarrow> error + slot list" where
  "getAvailableSlots st svc date =
    (case find (\<lambda>s. name s = svc \<and> is_active s \<and> is_available_for_booking s) (services st) of
       None \<Rightarrow> Inl ServiceNotAvailable
     | Some serviceData \<Rightarrow>
         let timeSlots = gen_timeSlots 9 17 [];
             dur = estimated_duration serviceData;
             existing = existingBookings st svc date
         in Inr (map (\<lambda>sl. \<lparr>time = time sl, available = \<not> hasConflict dur existing sl\<rparr>) timeSlots))"

section \<open>BookingModel.create and BookingService.createBooking\<close>

text \<open>\<open>CreateBookingRequest\<close>; an optional field that is \<open>undefined\<close> is \<open>None\<close>.\<close>

record create_request =
  req_service :: string
  req_serviceType :: service_type
  req_bookingDate :: date
  req_bookingTime :: string
  req_customerName :: string
  req_customerPhone :: string
  req_customerEmail :: string
  req_serviceAddress :: string
  req_serviceDescription :: "string option"
  req_specialInstructions :: "string option"
  req_priority :: "priority option"

text \<open>\<open>userId || null\<close>: an absent or empty user id is stored as NULL.\<close>

definition or_null :: "string option \<Rightarrow> string option" where
  "or_null userId = (case userId of None \<Rightarrow> None | Some u \<Rightarrow> (if u = [] then None else Some u))"

text \<open>
  The insert names fifteen columns. The others take the defaults of the bookings
  migration: \<open>id\<close> is \<open>gen_random_uuid()\<close> (the argument \<open>new_id\<close>), \<open>status\<close> defaults to
  'pending', \<open>created_at\<close> and \<open>updated_at\<close> to the current time (the argument \<open>now\<close>), and
  the nullable columns to NULL. \<open>estimated_cost\<close> takes the service's \<open>base_price\<close>, which
  is read from a \<open>decimal(10, 2)\<close> column and so is stored as it is.
  \<open>returning(['*'])\<close> gives the inserted row back; the
  result is kept as that row, of which \<open>mapDatabaseBookingToBooking\<close> renames the
  columns to camel case.
\<close>

definition create ::
  "db \<Rightarrow> string \<Rightarrow> timestamp \<Rightarrow> create_request \<Rightarrow> string option \<Rightarrow> (error + booking_row) \<times> db" where
  "create st new_id now bookingData userId =
    (case find (\<lambda>s. name s = req_service bookingData) (services st) of
       None \<Rightarrow> (Inl ServiceNotFound, st)
     | Some svc \<Rightarrow>
         let booking =
           \<lparr>booking_id = new_id,
            user_id = or_null userId,
            service_id = Some (service_id_pk svc),
            service = req_service bookingData,
            service_type = req_serviceType bookingData,
            booking_date = req_bookingDate bookingData,
            booking_time = req_bookingTime bookingData,
            duration = estimated_duration svc,
            status = Pending,
            priority = (case req_priority bookingData of None \<Rightarrow> Medium | Some p \<Rightarrow> p),
            customer_name = req_customerName bookingData,
            customer_phone = req_customerPhone bookingData,
            customer_email = req_customerEmail bookingData,
            service_address = req_serviceAddress bookingData,
            service_description = req_serviceDescription bookingData,
            special_instructions = req_specialInstructions bookingData,
            estimated_cost = Some (base_price svc),
            actual_cost = None,
            assigned_technician = None,
            booking_notes = None,
            confirmed_at = None,
            started_at = None,
            completed_at = None,
            created_at = now,
            updated_at = now\<rparr>
         in (Inr booking, st\<lparr>bookings := bookings st @ [booking]\<rparr>))"

definition createBooking ::
  "db \<Rightarrow> string \<Rightarrow> timestamp \<Rightarrow> create_request \<Rightarrow> string option \<Rightarrow> (error + booking_row) \<times> db" where
  "createBooking st new_id now bookingData userId =
    (case getAvailableSlots st (req_service bookingData) (req_bookingDate bookingData) of
       Inl e \<Rightarrow> (Inl e, st)
     | Inr availableSlots \<Rightarrow>
         (case find (\<lambda>sl. time sl = req_bookingTime bookingData) availableSlots of
            None \<Rightarrow> (Inl SlotUnavailable, st)
          | Some requestedTimeSlot \<Rightarrow>
              if \<not> available requestedTimeSlot then (Inl SlotUnavailable, st)
              else create st new_id now bookingData userId))"

section \<open>BookingModel.update, updateBookingStatus and delete\<close>

text \<open>
  \<open>UpdateBookingRequest\<close>. \<open>None\<close> is a field that is absent. A status, a priority
  and a date that are present are non-empty strings in the source, hence truthy; a text
  field may be present and empty. The two costs are tested with \<open>!== undefined\<close>, so for
  them \<open>Some None\<close> is a JSON null.
\<close>

record update_request =
  upd_status :: "status option"
  upd_bookingDate :: "date option"
  upd_bookingTime :: "string option"
  upd_serviceDescription :: "string option"
  upd_specialInstructions :: "string option"
  upd_priority :: "priority option"
  upd_estimatedCost :: "rat option option"
  upd_actualCost :: "rat option option"
  upd_assignedTechnician :: "string option"
  upd_notes :: "string option"

text \<open>\<open>if (x) ...\<close> on an optional string: \<open>undefined\<close> and the empty string are falsy.\<close>

definition truthy :: "string option \<Rightarrow> string option" where
  "truthy x = (case x of None \<Rightarrow> None | Some s \<Rightarrow> (if s = [] then None else Some s))"

text \<open>The \<open>updateData\<close> object: the columns the UPDATE statement assigns.\<close>

record update_data =
  set_updated_at :: timestamp
  set_status :: "status option"
  set_confirmed_at :: "timestamp option"
  set_started_at :: "timestamp option"
  set_completed_at :: "timestamp option"
  set_booking_date :: "date option"
  set_booking_time :: "string option"
  set_service_description :: "string option"
  set_special_instructions :: "string option"
  set_priority :: "priority option"
  set_estimated_cost :: "rat option option"
  set_actual_cost :: "rat option option"
  set_assigned_technician :: "string option"
  set_notes :: "string option"

definition updateData :: "timestamp \<Rightarrow> update_request \<Rightarrow> update_data" where
  "updateData now updates =
    \<lparr>set_updated_at = now,
     set_status = upd_status updates,
     set_confirmed_at = (if upd_status updates = Some Confirmed then Some now else None),
     set_started_at = (if upd_status updates = Some InProgress then Some now else None),
     set_completed_at = (if upd_status updates = Some Completed then Some now else None),
     set_booking_date = upd_bookingDate updates,
     set_booking_time = truthy (upd_bookingTime updates),
     set_service_description = truthy (upd_serviceDescription updates),
     set_special_instructions = truthy (upd_specialInstructions updates),
     set_priority = upd_priority updates,
     set_estimated_cost = upd_estimatedCost updates,
     set_actual_cost = upd_actualCost updates,
     set_assigned_technician = truthy (upd_assignedTechnician updates),
     set_notes = truthy (upd_notes updates)\<rparr>"

text \<open>The UPDATE on one row: a column named in \<open>updateData\<close> takes its value, the others stay.\<close>

definition assign :: "'a option \<Rightarrow> 'a \<Rightarrow> 'a" where
  "assign new old = (case new of None \<Rightarrow> old | Some v \<Rightarrow> v)"

definition assign_nullable :: "'a option \<Rightarrow> 'a option \<Rightarrow> 'a option" where
  "assign_nullable new old = (case new of None \<Rightarrow> old | Some v \<Rightarrow> Some v)"

text \<open>
  \<open>estimated_cost\<close> and \<open>actual_cost\<close> are \<open>decimal(10, 2)\<close> columns: a number written to
  them is rounded to two decimal places, a tie away from zero (12.345 is stored as
  12.35), and a null is stored as NULL. A number of more than eight integer digits is
  refused by the store, a failure that is not modelled.
\<close>

definition round_half_away :: "rat \<Rightarrow> int" where
  "round_half_away x = (if 0 \<le> x then \<lfloor>x + 1 / 2\<rfloor> else - \<lfloor>- x + 1 / 2\<rfloor>)"

definition decimal_10_2 :: "rat \<Rightarrow> rat" where
  "decimal_10_2 x = of_int (round_half_away (x * 100)) / 100"

definition store_cost :: "rat option \<Rightarrow> rat option" where
  "store_cost c = map_option decimal_10_2 c"

definition apply_updateData :: "update_data \<Rightarrow> booking_row \<Rightarrow> booking_row" where
  "apply_updateData d b =
    b\<lparr>updated_at := set_updated_at d,
      status := assign (set_status d) (status b),
      confirmed_at := assign_nullable (set_confirmed_at d) (confirmed_at b),
      started_at := assign_nullable (set_started_at d) (started_at b),
      completed_at := assign_nullable (set_completed_at d) (completed_at b),
      booking_date := assign (set_booking_date d) (booking_date b),
      booking_time := assign (set_booking_time d) (booking_time b),
      service_description := assign_nullable (set_service_description d) (service_description b),
      special_instructions := assign_nullable (set_special_instructions d) (special_instructions b),
      priority := assign (set_priority d) (priority b),
      estimated_cost := assign (map_option store_cost (set_estimated_cost d)) (estimated_cost b),
      actual_cost := assign (map_option store_cost (set_actual_cost d)) (actual_cost b),
      assigned_technician := assign_nullable (set_assigned_technician d) (assigned_technician b),
      booking_notes := assign_nullable (set_notes d) (booking_notes b)\<rparr>"

text \<open>
  \<open>db('bookings').where('id', id).update(updateData).returning(['*'])\<close>: every row with
  the id is updated and returned; no returned row is 'Booking not found'.
\<close>

definition update ::
  "db \<Rightarrow> timestamp \<Rightarrow> string \<Rightarrow> update_request \<Rightarrow> (error + booking_row) \<times> db" where
  "update st now ident updates =
    (let d = updateData now updates;
         rows = map (\<lambda>b. if booking_id b = ident then apply_updateData d b else b) (bookings st)
     in case filter (\<lambda>b. booking_id b = ident) rows of
          [] \<Rightarrow> (Inl BookingNotFound, st)
        | booking # _ \<Rightarrow> (Inr booking, st\<lparr>bookings := rows\<rparr>))"

definition status_only :: "status \<Rightarrow> update_request" where
  "status_only s =
    \<lparr>upd_status = Some s, upd_bookingDate = None, upd_bookingTime = None,
     upd_serviceDescription = None, upd_specialInstructions = None, upd_priority = None,
     upd_estimatedCost = None, upd_actualCost = None, upd_assignedTechnician = None,
     upd_notes = None\<rparr>"

definition updateBookingStatus ::
  "db \<Rightarrow> timestamp \<Rightarrow> string \<Rightarrow> status \<Rightarrow> (error + booking_row) \<times> db" where
  "updateBookingStatus st now ident s = update st now ident (status_only s)"

text \<open>\<open>BookingModel.delete\<close>, which \<open>cancelBooking\<close> calls: the row is kept, marked cancelled.\<close>

definition delete :: "db \<Rightarrow> timestamp \<Rightarrow> string \<Rightarrow> (error + unit) \<times> db" where
  "delete st now ident =
    (let rows = map (\<lambda>b. if booking_id b = ident then b\<lparr>status := Cancelled, updated_at := now\<rparr> else b)
                  (bookings st)
     in case filter (\<lambda>b. booking_id b = ident) rows of
          [] \<Rightarrow> (Inl BookingNotFound, st)
        | booking # _ \<Rightarrow> (Inr (), st\<lparr>bookings := rows\<rparr>))"

definition cancelBooking :: "db \<Rightarrow> timestamp \<Rightarrow> string \<Rightarrow> (error + unit) \<times> db" where
  "cancelBooking st now ident = delete st now ident"

text \<open>A later run of \<open>updateBookingStatus\<close> calls, each with its clock reading, id and status.\<close>

fun status_updates :: "db \<Rightarrow> (timestamp \<times> string \<times> status) list \<Rightarrow> db" where
  "status_updates st [] = st"
| "status_updates st ((now, ident, s) # ups) =
     status_updates (snd (updateBookingStatus st now ident s)) ups"

section \<open>Calendar query and statistics\<close>

text \<open>
  \<open>getBookingsByDateRange\<close>: the technician filter applies when the argument is truthy;
  ORDER BY \<open>booking_date\<close>, \<open>booking_time\<close> ascending is a sort on the pair.
\<close>

definition getBookingsByDateRange :: "db \<Rightarrow> date \<Rightarrow> date \<Rightarrow> string option \<Rightarrow> booking_row list" where
  "getBookingsByDateRange st startDate endDate technician =
    sort_key (\<lambda>b. (booking_date b, booking_time b))
      (filter (\<lambda>b. booking_date b \<ge> startDate \<and> booking_date b \<le> endDate
                  \<and> status b \<notin> {Cancelled, NoShow}
                  \<and> (case truthy technician of None \<Rightarrow> True
                      | Some t \<Rightarrow> assigned_technician b = Some t))
         (bookings st))"

text \<open>SQL \<open>SUM\<close> skips NULLs and is NULL when nothing is left; \<open>COALESCE(x, 0)\<close>.\<close>

definition sql_sum :: "rat option list \<Rightarrow> rat option" where
  "sql_sum xs = (case List.map_filter id xs of [] \<Rightarrow> None | ys \<Rightarrow> Some (sum_list ys))"

definition coalesce :: "rat option \<Rightarrow> rat \<Rightarrow> rat" where
  "coalesce x d = (case x of None \<Rightarrow> d | Some v \<Rightarrow> v)"

record booking_stats =
  total :: nat
  pending :: nat
  confirmed :: nat
  completed :: nat
  cancelled :: nat
  revenue :: rat

text \<open>\<open>CASE WHEN actual_cost IS NOT NULL THEN actual_cost ELSE estimated_cost END\<close>.\<close>

definition cost_case :: "booking_row \<Rightarrow> rat option" where
  "cost_case b = (case actual_cost b of Some a \<Rightarrow> Some a | None \<Rightarrow> estimated_cost b)"

definition stats_rows :: "db \<Rightarrow> date option \<Rightarrow> date option \<Rightarrow> booking_row list" where
  "stats_rows st startDate endDate =
    filter (\<lambda>b. (case startDate of None \<Rightarrow> True | Some s \<Rightarrow> booking_date b \<ge> s)
               \<and> (case endDate of None \<Rightarrow> True | Some e \<Rightarrow> booking_date b \<le> e))
      (bookings st)"

definition count_status :: "status \<Rightarrow> booking_row list \<Rightarrow> nat" where
  "count_status s rows = length (filter (\<lambda>b. status b = s) rows)"

definition getBookingStats :: "db \<Rightarrow> date option \<Rightarrow> date option \<Rightarrow> booking_stats" where
  "getBookingStats st startDate endDate =
    (let rows = stats_rows st startDate endDate
     in \<lparr>total = length rows,
         pending = count_status Pending rows,
         confirmed = count_status Confirmed rows,
         completed = count_status Completed rows,
         cancelled = count_status Cancelled rows,
         revenue = coalesce (sql_sum (map cost_case rows)) 0\<rparr>)"

section \<open>Notions of the specification\<close>

text \<open>
  The overlap test as the specification words it, on integer hours \<open>S\<close>, \<open>B\<close> and
  integer minutes \<open>D\<close>, \<open>Db\<close>: the intervals [S, S + D/60) and [B, B + Db/60) overlap.
\<close>

definition spec_overlap :: "int \<Rightarrow> int \<Rightarrow> int \<Rightarrow> int \<Rightarrow> bool" where
  "spec_overlap S D B Db =
    ((of_int S :: rat) < of_int B + of_int Db / 60 \<and> (of_int S :: rat) + of_int D / 60 > of_int B)"

text \<open>The eight grid times of the specification.\<close>

definition spec_grid :: "string list" where
  "spec_grid = [''09:00'', ''10:00'', ''11:00'', ''12:00'', ''13:00'', ''14:00'', ''15:00'', ''16:00'']"

text \<open>
  What an update with request \<open>u\<close> may not touch on a row: the columns outside the
  request, and the columns whose field is omitted from it.
\<close>

definition spec_update_frame :: "update_request \<Rightarrow> booking_row \<Rightarrow> booking_row \<Rightarrow> bool" where
  "spec_update_frame u b b' =
    (booking_id b' = booking_id b \<and> user_id b' = user_id b \<and> service_id b' = service_id b
     \<and> service b' = service b \<and> service_type b' = service_type b \<and> duration b' = duration b
     \<and> customer_name b' = customer_name b \<and> customer_phone b' = customer_phone b
     \<and> customer_email b' = customer_email b \<and> service_address b' = service_address b
     \<and> created_at b' = created_at b
     \<and> (upd_status u = None \<longrightarrow> status b' = status b \<and> confirmed_at b' = confirmed_at b
            \<and> started_at b' = started_at b \<and> completed_at b' = completed_at b)
     \<and> (upd_bookingDate u = None \<longrightarrow> booking_date b' = booking_date b)
     \<and> (upd_bookingTime u = None \<longrightarrow> booking_time b' = booking_time b)
     \<and> (upd_serviceDescription u = None \<longrightarrow> service_description b' = service_description b)
     \<and> (upd_specialInstructions u = None \<longrightarrow> special_instructions b' = special_instructions b)
     \<and> (upd_priority u = None \<longrightarrow> priority b' = priority b)
     \<and> (upd_estimatedCost u = None \<longrightarrow> estimated_cost b' = estimated_cost b)
     \<and> (upd_actualCost u = None \<longrightarrow> actual_cost b' = actual_cost b)
     \<and> (upd_assignedTechnician u = None \<longrightarrow> assigned_technician b' = assigned_technician b)
     \<and> (upd_notes u = None \<longrightarrow> booking_notes b' = booking_notes b))"

text \<open>An optional text column keeps its value or takes the supplied, non-empty string.\<close>

definition spec_text_kept :: "string option \<Rightarrow> string option \<Rightarrow> string option \<Rightarrow> bool" where
  "spec_text_kept supplied old new =
    (new = old \<or> (case supplied of None \<Rightarrow> False | Some v \<Rightarrow> v \<noteq> [] \<and> new = Some v))"

section \<open>Concurrent calls of createBooking\<close>

text \<open>
  \<open>createBooking\<close> awaits the store twice: \<open>await BookingModel.getAvailableSlots\<close>,
  then, after the test of the requested slot, \<open>await BookingModel.create\<close>. No lock
  and no transaction spans the two, so other calls may run in between. A call in flight
  is its arguments and the point it has reached: before the slot check, between check and
  insert, or returned. \<open>call_step\<close> runs one call up to its next await; a schedule names
  the call that runs next. The two queries inside each phase are run as one step, which
  leaves out schedules, not behaviours of the schedules kept.
\<close>

datatype phase = AwaitingSlots | AwaitingInsert | Returned "error + booking_row"

record call =
  call_data :: create_request
  call_userId :: "string option"
  call_new_id :: string
  call_now :: timestamp
  call_phase :: phase

definition new_call :: "create_request \<Rightarrow> string option \<Rightarrow> string \<Rightarrow> timestamp \<Rightarrow> call" where
  "new_call bookingData userId new_id now =
    \<lparr>call_data = bookingData, call_userId = userId, call_new_id = new_id, call_now = now,
     call_phase = AwaitingSlots\<rparr>"

definition call_step :: "db \<Rightarrow> call \<Rightarrow> call \<times> db" where
  "call_step st c =
    (case call_phase c of
       AwaitingSlots \<Rightarrow>
         (case getAvailableSlots st (req_service (call_data c)) (req_bookingDate (call_data c)) of
            Inl e \<Rightarrow> (c\<lparr>call_phase := Returned (Inl e)\<rparr>, st)
          | Inr availableSlots \<Rightarrow>
              (case find (\<lambda>sl. time sl = req_bookingTime (call_data c)) availableSlots of
                 None \<Rightarrow> (c\<lparr>call_phase := Returned (Inl SlotUnavailable)\<rparr>, st)
               | Some requestedTimeSlot \<Rightarrow>
                   if \<not> available requestedTimeSlot
                   then (c\<lparr>call_phase := Returned (Inl SlotUnavailable)\<rparr>, st)
                   else (c\<lparr>call_phase := AwaitingInsert\<rparr>, st)))
     | AwaitingInsert \<Rightarrow>
         (case create st (call_new_id c) (call_now c) (call_data c) (call_userId c) of
            (res, st') \<Rightarrow> (c\<lparr>call_phase := Returned res\<rparr>, st'))
     | Returned res \<Rightarrow> (c, st))"

fun run_schedule :: "db \<Rightarrow> call list \<Rightarrow> nat list \<Rightarrow> db \<times> call list" where
  "run_schedule st cs [] = (st, cs)"
| "run_schedule st cs (i # schedule) =
    (if i < length cs
     then (case call_step st (cs ! i) of (c', st') \<Rightarrow> run_schedule st' (cs[i := c']) schedule)
     else run_schedule st cs schedule)"

text \<open>
  The requirement of no double booking: no two rows that are neither cancelled nor
  no-show hold the same service, date and time.
\<close>

definition same_slot :: "booking_row \<Rightarrow> booking_row \<Rightarrow> bool" where
  "same_slot a b =
    (service a = service b \<and> booking_date a = booking_date b \<and> booking_time a = booking_time b)"

definition occupies :: "booking_row \<Rightarrow> bool" where
  "occupies b = (status b \<noteq> Cancelled \<and> status b \<noteq> NoShow)"

fun double_booked_rows :: "booking_row list \<Rightarrow> bool" where
  "double_booked_rows [] = False"
| "double_booked_rows (b # bs) =
    ((occupies b \<and> list_ex (\<lambda>c. occupies c \<and> same_slot b c) bs) \<or> double_booked_rows bs)"

definition double_booked :: "db \<Rightarrow> bool" where
  "double_booked st = double_booked_rows (bookings st)"

section \<open>Example data\<close>

text \<open>The seeded service Lock Installation and one booking of it on 2024-03-15 at 10:00.\<close>

definition demo_service :: service_row where
  "demo_service =
    \<lparr>service_id_pk = ''s1'', name = ''Lock Installation'',
     description = ''Professional installation of locks'', category = Installation,
     base_price = 150, estimated_duration = 120, is_active = True,
     is_available_for_booking = True\<rparr>"

definition demo_booking :: booking_row where
  "demo_booking =
    \<lparr>booking_id = ''b1'', user_id = None, service_id = Some ''s1'',
     service = ''Lock Installation'', service_type = LockInstallation,
     booking_date = (2024, 3, 15), booking_time = ''10:00'', duration = 120,
     status = Pending, priority = Medium, customer_name = ''John Doe'',
     customer_phone = ''+1-555-0123'', customer_email = ''john@example.com'',
     service_address = ''123 Main St'', service_description = None,
     special_instructions = None, estimated_cost = Some 150, actual_cost = None,
     assigned_technician = None, booking_notes = None, confirmed_at = None,
     started_at = None, completed_at = None, created_at = 1, updated_at = 1\<rparr>"

definition demo_db :: db where
  "demo_db = \<lparr>services = [demo_service], bookings = [demo_booking]\<rparr>"

definition demo_request :: create_request where
  "demo_request =
    \<lparr>req_service = ''Lock Installation'', req_serviceType = LockInstallation,
     req_bookingDate = (2024, 3, 15), req_bookingTime = ''12:00'',
     req_customerName = ''Jane Roe'', req_customerPhone = ''+1-555-0456'',
     req_customerEmail = ''jane@example.com'', req_serviceAddress = ''456 Oak Avenue'',
     req_serviceDescription = None, req_specialInstructions = None, req_priority = None\<rparr>"

text \<open>
  An update that sends an empty note, a null estimated cost, the actual cost 12.345 and a
  technician.
\<close>

definition demo_update :: update_request where
  "demo_update =
    \<lparr>upd_status = None, upd_bookingDate = None, upd_bookingTime = None,
     upd_serviceDescription = None, upd_specialInstructions = None, upd_priority = None,
     upd_estimatedCost = Some None, upd_actualCost = Some (Some (2469 / 200)),
     upd_assignedTechnician = Some ''Mike Johnson'', upd_notes = Some []\<rparr>"

definition demo_noted_db :: db where
  "demo_noted_db =
    \<lparr>services = [demo_service],
     bookings = [demo_booking\<lparr>booking_notes := Some ''call first''\<rparr>]\<rparr>"

text \<open>Two completed bookings: one without an actual cost, one with actual cost 180.\<close>

definition stats_demo_db :: db where
  "stats_demo_db =
    \<lparr>services = [demo_service],
     bookings =
       [demo_booking\<lparr>status := Completed, estimated_cost := Some 150, actual_cost := None\<rparr>,
        demo_booking\<lparr>booking_id := ''b2'', booking_time := ''14:00'', status := Completed,
           estimated_cost := Some 200, actual_cost := Some 180\<rparr>]\<rparr>"

section \<open>Basic facts\<close>

lemma dec_digit_cases:
  assumes "digitValue c = Some v" "v < 10"
  shows "c \<in> set ''0123456789''"
  using assms unfolding digitValue_def by (auto split: if_splits)

lemma dec_digit_props:
  assumes "digitValue c = Some v" "v < 10"
  shows "\<not> isWhiteSpace c" "c \<noteq> CHR '':''" "c \<noteq> CHR ''+''" "c \<noteq> CHR ''-''"
        "c \<noteq> CHR ''x''" "c \<noteq> CHR ''X''" "isRadixDigit 10 c"
  using dec_digit_cases [OF assms] assms
  by (auto simp: isWhiteSpace_def isRadixDigit_def)

text \<open>On a time that starts with two decimal digits and a colon, the minutes are dropped.\<close>

lemma parseInt_HH:
  assumes d1: "digitValue d1 = Some v1" "v1 < 10" and d2: "digitValue d2 = Some v2" "v2 < 10"
  shows "parseInt (split_colon_0 (d1 # d2 # CHR '':'' # rest)) = Some (of_int (int (10 * v1 + v2)))"
proof -
  have s: "split_colon_0 (d1 # d2 # CHR '':'' # rest) = [d1, d2]"
    using dec_digit_props(2) [OF d1] dec_digit_props(2) [OF d2] by (simp add: split_colon_0_def)
  have v: "radixValue 10 [d1, d2] = 10 * v1 + v2"
    using d1 d2 by (simp add: radixValue_def)
  show ?thesis
    unfolding s parseInt_def Let_def
    using dec_digit_props [OF d1] dec_digit_props [OF d2] v
    by simp
qed

lemma parseInt_integral: "parseInt s = None \<or> (\<exists>z. parseInt s = Some (of_int z))"
  unfolding parseInt_def Let_def by (simp del: of_int_mult of_int_minus of_int_of_nat_eq)

lemma timeSlots_grid: "gen_timeSlots 9 17 [] = map (\<lambda>t. \<lparr>time = t, available = True\<rparr>) spec_grid"
  by (simp add: gen_timeSlots.simps toString.simps padStart_def digitChar_def spec_grid_def)

lemma grid_hours:
  "map (\<lambda>t. parseInt (split_colon_0 t)) spec_grid =
     [Some 9, Some 10, Some 11, Some 12, Some 13, Some 14, Some 15, Some 16]"
  by (simp add: spec_grid_def parseInt_def split_colon_0_def isWhiteSpace_def isRadixDigit_def
        digitValue_def radixValue_def)

lemma hasConflict_iff:
  assumes "parseInt (split_colon_0 (time sl)) = Some (of_int S)"
  shows "hasConflict D (existingBookings st svc date) sl \<longleftrightarrow>
     (\<exists>b\<in>set (bookings st). booking_date b = date \<and> service b = svc
        \<and> status b \<noteq> Cancelled \<and> status b \<noteq> NoShow
        \<and> (\<exists>B. parseInt (split_colon_0 (booking_time b)) = Some (of_int B)
              \<and> spec_overlap S D B (duration b)))"
  (is "?L = ?R")
proof
  assume ?L
  then obtain b where b: "b \<in> set (bookings st)" "booking_date b = date" "service b = svc"
      "status b \<noteq> Cancelled" "status b \<noteq> NoShow"
    and c: "num_lt (Some (of_int S)) (num_add (parseInt (split_colon_0 (booking_time b))) (minutes_div_60 (duration b)))"
           "num_gt (num_add (Some (of_int S)) (minutes_div_60 D)) (parseInt (split_colon_0 (booking_time b)))"
    using assms by (auto simp: hasConflict_def existingBookings_def list_ex_iff Let_def)
  from c(2) have "parseInt (split_colon_0 (booking_time b)) \<noteq> None"
    by (auto simp: num_gt_def num_add_def minutes_div_60_def split: option.splits)
  then obtain B where B: "parseInt (split_colon_0 (booking_time b)) = Some (of_int B)"
    using parseInt_integral [of "split_colon_0 (booking_time b)"] by auto
  have "spec_overlap S D B (duration b)"
    using c unfolding B by (simp add: spec_overlap_def num_lt_def num_gt_def num_add_def minutes_div_60_def)
  with b B show ?R by blast
next
  assume ?R
  then obtain b B where b: "b \<in> set (bookings st)" "booking_date b = date" "service b = svc"
      "status b \<noteq> Cancelled" "status b \<noteq> NoShow"
      and B: "parseInt (split_colon_0 (booking_time b)) = Some (of_int B)"
      and o: "spec_overlap S D B (duration b)"
    by blast
  have "(booking_time b, duration b) \<in> set (existingBookings st svc date)"
    using b by (auto simp: existingBookings_def)
  moreover have "num_lt (Some (of_int S)) (num_add (parseInt (split_colon_0 (booking_time b))) (minutes_div_60 (duration b)))
      \<and> num_gt (num_add (Some (of_int S)) (minutes_div_60 D)) (parseInt (split_colon_0 (booking_time b)))"
    using o unfolding B by (simp add: spec_overlap_def num_lt_def num_gt_def num_add_def minutes_div_60_def)
  ultimately show ?L
    using assms unfolding hasConflict_def Let_def list_ex_iff by force
qed

lemma find_active:
  assumes "\<exists>s\<in>set (services st). name s = svc \<and> is_active s \<and> is_available_for_booking s"
  shows "\<exists>serviceData. find (\<lambda>s. name s = svc \<and> is_active s \<and> is_available_for_booking s) (services st) = Some serviceData"
  using assms by (cases "find (\<lambda>s. name s = svc \<and> is_active s \<and> is_available_for_booking s) (services st)") (auto simp: find_None_iff)

lemma getAvailableSlots_Some:
  assumes "find (\<lambda>s. name s = svc \<and> is_active s \<and> is_available_for_booking s) (services st) = Some serviceData"
  shows "getAvailableSlots st svc date =
    Inr (map (\<lambda>t. \<lparr>time = t, available = \<not> hasConflict (estimated_duration serviceData)
                 (existingBookings st svc date) \<lparr>time = t, available = True\<rparr>\<rparr>) spec_grid)"
  using assms by (simp add: getAvailableSlots_def timeSlots_grid Let_def comp_def)

lemma grid_sorted: "sorted_wrt (<) spec_grid"
  by (simp add: spec_grid_def)

lemma grid_hour_nth:
  assumes "i < 8"
  shows "parseInt (split_colon_0 (spec_grid ! i)) = Some (of_int (9 + int i))"
proof -
  have "map (\<lambda>t. parseInt (split_colon_0 t)) spec_grid ! i = Some (of_int (9 + int i))"
    unfolding grid_hours using assms
    by (auto simp: less_Suc_eq numeral_eq_Suc)
  moreover have "length spec_grid = 8" by (simp add: spec_grid_def)
  ultimately show ?thesis using assms by simp
qed

section \<open>The availability grid\<close>

text \<open>
  C2. For an active, bookable service, whatever its duration, and any date,
  \<open>getAvailableSlots\<close> returns exactly eight slots, with the times 09:00, 10:00, ...,
  16:00 in this strictly ascending order, each with its availability flag.
\<close>

theorem getAvailableSlots_grid:
  assumes "\<exists>s\<in>set (services st). name s = svc \<and> is_active s \<and> is_available_for_booking s"
  shows "\<exists>slots. getAvailableSlots st svc date = Inr slots \<and> length slots = 8
     \<and> map time slots = [''09:00'', ''10:00'', ''11:00'', ''12:00'', ''13:00'', ''14:00'', ''15:00'', ''16:00'']
     \<and> sorted_wrt (<) (map time slots)"
proof -
  from find_active [OF assms] obtain serviceData where
    f: "find (\<lambda>s. name s = svc \<and> is_active s \<and> is_available_for_booking s) (services st) = Some serviceData" ..
  have g: "map time (map (\<lambda>t. \<lparr>time = t, available = \<not> hasConflict (estimated_duration serviceData)
                 (existingBookings st svc date) \<lparr>time = t, available = True\<rparr>\<rparr>) spec_grid) = spec_grid"
    by (simp add: comp_def)
  show ?thesis
    unfolding getAvailableSlots_Some [OF f]
    apply (intro exI conjI)
       apply (rule refl)
      apply (simp add: spec_grid_def)
     apply (simp only: g)
     apply (simp add: spec_grid_def)
    apply (simp only: g grid_sorted)
    done
qed

theorem getAvailableSlots_grid_witness:
  "(\<exists>s\<in>set (services demo_db). name s = ''Lock Installation'' \<and> is_active s \<and> is_available_for_booking s)
   \<and> (\<exists>slots. getAvailableSlots demo_db ''Lock Installation'' (2024, 3, 15) = Inr slots \<and> length slots = 8
     \<and> map time slots = [''09:00'', ''10:00'', ''11:00'', ''12:00'', ''13:00'', ''14:00'', ''15:00'', ''16:00'']
     \<and> sorted_wrt (<) (map time slots))"
proof -
  have h: "\<exists>s\<in>set (services demo_db). name s = ''Lock Installation'' \<and> is_active s \<and> is_available_for_booking s"
    by (simp add: demo_db_def demo_service_def)
  show ?thesis
    using h getAvailableSlots_grid [OF h, of "(2024, 3, 15)"] by blast
qed

text \<open>
  C1. For an active, bookable service of duration \<open>D\<close> and any date, the slot of start
  hour \<open>S = 9 + i\<close> is marked unavailable exactly when some booking of that service and
  date whose status is neither cancelled nor no-show, of start hour \<open>B\<close> and stored
  duration \<open>Db\<close>, has \<open>S < B + Db/60\<close> and \<open>S + D/60 > B\<close>. Both hours are what \<open>parseInt\<close>
  reads before the colon, so the minutes are dropped: 09:30 counts as hour 9, like 09:00
  (\<open>parseInt_HH\<close> is the general fact).
\<close>

theorem getAvailableSlots_conflict:
  assumes "find (\<lambda>s. name s = svc \<and> is_active s \<and> is_available_for_booking s) (services st) = Some serviceData"
  shows "\<exists>slots. getAvailableSlots st svc date = Inr slots \<and> length slots = 8 \<and>
     (\<forall>i<8. time (slots ! i) = spec_grid ! i
        \<and> parseInt (split_colon_0 (time (slots ! i))) = Some (of_int (9 + int i))
        \<and> (\<not> available (slots ! i) \<longleftrightarrow>
             (\<exists>b\<in>set (bookings st). booking_date b = date \<and> service b = svc
                \<and> status b \<noteq> Cancelled \<and> status b \<noteq> NoShow
                \<and> (\<exists>B. parseInt (split_colon_0 (booking_time b)) = Some (of_int B)
                      \<and> spec_overlap (9 + int i) (estimated_duration serviceData) B (duration b)))))
     \<and> parseInt (split_colon_0 ''09:30'') = Some 9
     \<and> parseInt (split_colon_0 ''09:30'') = parseInt (split_colon_0 ''09:00'')"
proof -
  let ?slots = "map (\<lambda>t. \<lparr>time = t, available = \<not> hasConflict (estimated_duration serviceData)
                 (existingBookings st svc date) \<lparr>time = t, available = True\<rparr>\<rparr>) spec_grid"
  have len: "length spec_grid = 8" by (simp add: spec_grid_def)
  have a: "\<forall>i<8. time (?slots ! i) = spec_grid ! i
        \<and> parseInt (split_colon_0 (time (?slots ! i))) = Some (of_int (9 + int i))
        \<and> (\<not> available (?slots ! i) \<longleftrightarrow>
             (\<exists>b\<in>set (bookings st). booking_date b = date \<and> service b = svc
                \<and> status b \<noteq> Cancelled \<and> status b \<noteq> NoShow
                \<and> (\<exists>B. parseInt (split_colon_0 (booking_time b)) = Some (of_int B)
                      \<and> spec_overlap (9 + int i) (estimated_duration serviceData) B (duration b))))"
  proof (intro allI impI)
    fix i :: nat assume i: "i < 8"
    have h: "parseInt (split_colon_0 (time \<lparr>time = spec_grid ! i, available = True\<rparr>)) = Some (of_int (9 + int i))"
      using grid_hour_nth [OF i] by simp
    have t: "time (?slots ! i) = spec_grid ! i"
      using i len by simp
    have v: "available (?slots ! i) = (\<not> hasConflict (estimated_duration serviceData)
                 (existingBookings st svc date) \<lparr>time = spec_grid ! i, available = True\<rparr>)"
      using i len by simp
    show "time (?slots ! i) = spec_grid ! i
        \<and> parseInt (split_colon_0 (time (?slots ! i))) = Some (of_int (9 + int i))
        \<and> (\<not> available (?slots ! i) \<longleftrightarrow>
             (\<exists>b\<in>set (bookings st). booking_date b = date \<and> service b = svc
                \<and> status b \<noteq> Cancelled \<and> status b \<noteq> NoShow
                \<and> (\<exists>B. parseInt (split_colon_0 (booking_time b)) = Some (of_int B)
                      \<and> spec_overlap (9 + int i) (estimated_duration serviceData) B (duration b))))"
      unfolding t v not_not
      by (intro conjI refl grid_hour_nth [OF i] hasConflict_iff [OF h])
  qed
  have p: "parseInt (split_colon_0 ''09:30'') = Some 9" "parseInt (split_colon_0 ''09:00'') = Some 9"
    by (simp_all add: parseInt_def split_colon_0_def isWhiteSpace_def isRadixDigit_def
        digitValue_def radixValue_def)
  have p3: "parseInt (split_colon_0 ''09:30'') = parseInt (split_colon_0 ''09:00'')"
    using p by simp
  have l: "length ?slots = 8" using len by simp
  show ?thesis
    unfolding getAvailableSlots_Some [OF assms]
    by (intro exI [of _ ?slots] conjI refl l a p(1) p3)
qed

lemma grid_hour_vals:
  "parseInt (split_colon_0 ''09:00'') = Some 9" "parseInt (split_colon_0 ''10:00'') = Some 10"
  "parseInt (split_colon_0 ''11:00'') = Some 11" "parseInt (split_colon_0 ''12:00'') = Some 12"
  "parseInt (split_colon_0 ''13:00'') = Some 13" "parseInt (split_colon_0 ''14:00'') = Some 14"
  "parseInt (split_colon_0 ''15:00'') = Some 15" "parseInt (split_colon_0 ''16:00'') = Some 16"
  using grid_hours by (simp_all add: spec_grid_def)

lemma demo_find_active:
  "find (\<lambda>s. name s = ''Lock Installation'' \<and> is_active s \<and> is_available_for_booking s) (services demo_db)
      = Some demo_service"
  by (simp add: demo_db_def demo_service_def)

lemma demo_slots:
  "getAvailableSlots demo_db ''Lock Installation'' (2024, 3, 15) =
       Inr [\<lparr>time = ''09:00'', available = False\<rparr>, \<lparr>time = ''10:00'', available = False\<rparr>,
            \<lparr>time = ''11:00'', available = False\<rparr>, \<lparr>time = ''12:00'', available = True\<rparr>,
            \<lparr>time = ''13:00'', available = True\<rparr>, \<lparr>time = ''14:00'', available = True\<rparr>,
            \<lparr>time = ''15:00'', available = True\<rparr>, \<lparr>time = ''16:00'', available = True\<rparr>]"
proof -
  have e: "existingBookings demo_db ''Lock Installation'' (2024, 3, 15) = [(''10:00'', 120)]"
    by (simp add: existingBookings_def demo_db_def demo_booking_def)
  have d: "estimated_duration demo_service = 120" by (simp add: demo_service_def)
  show ?thesis
    unfolding getAvailableSlots_Some [OF demo_find_active] e d
    by (simp add: spec_grid_def hasConflict_def grid_hour_vals num_lt_def num_gt_def num_add_def minutes_div_60_def)
qed

theorem getAvailableSlots_conflict_witness:
  "find (\<lambda>s. name s = ''Lock Installation'' \<and> is_active s \<and> is_available_for_booking s) (services demo_db)
      = Some demo_service
   \<and> getAvailableSlots demo_db ''Lock Installation'' (2024, 3, 15) =
       Inr [\<lparr>time = ''09:00'', available = False\<rparr>, \<lparr>time = ''10:00'', available = False\<rparr>,
            \<lparr>time = ''11:00'', available = False\<rparr>, \<lparr>time = ''12:00'', available = True\<rparr>,
            \<lparr>time = ''13:00'', available = True\<rparr>, \<lparr>time = ''14:00'', available = True\<rparr>,
            \<lparr>time = ''15:00'', available = True\<rparr>, \<lparr>time = ''16:00'', available = True\<rparr>]"
  using getAvailableSlots_conflict [OF demo_find_active, of "(2024, 3, 15)"] demo_find_active demo_slots
  by (intro conjI)

section \<open>Creating a booking\<close>

lemma find_map_eq: "find (\<lambda>y. g y = t) (map f xs) = map_option f (find (\<lambda>x. g (f x) = t) xs)"
  by (induction xs) auto

lemma find_eq_mem: "find (\<lambda>x. x = t) xs = (if t \<in> set xs then Some t else None)"
  by (induction xs) auto

lemma find_named:
  assumes "find (\<lambda>s. name s = svc \<and> is_active s \<and> is_available_for_booking s) (services st) = Some serviceData"
  shows "\<exists>s. find (\<lambda>s. name s = svc) (services st) = Some s"
proof (cases "find (\<lambda>s. name s = svc) (services st)")
  case None
  then have "\<forall>s\<in>set (services st). name s \<noteq> svc" by (auto simp: find_None_iff)
  then have "find (\<lambda>s. name s = svc \<and> is_active s \<and> is_available_for_booking s) (services st) = None"
    by (auto simp: find_None_iff)
  with assms show ?thesis by simp
qed simp

lemma create_Some:
  assumes "find (\<lambda>s. name s = req_service r) (services st) = Some svc"
  shows "\<exists>b. create st new_id now r uid = (Inr b, st\<lparr>bookings := bookings st @ [b]\<rparr>)
     \<and> booking_id b = new_id \<and> service b = req_service r \<and> booking_date b = req_bookingDate r
     \<and> booking_time b = req_bookingTime r
     \<and> status b = Pending \<and> duration b = estimated_duration svc
     \<and> estimated_cost b = Some (base_price svc)
     \<and> priority b = (case req_priority r of None \<Rightarrow> Medium | Some p \<Rightarrow> p)"
  using assms by (simp add: create_def Let_def)

lemma createBooking_unfold:
  "createBooking st new_id now r uid =
    (case find (\<lambda>s. name s = req_service r \<and> is_active s \<and> is_available_for_booking s) (services st) of
       None \<Rightarrow> (Inl ServiceNotAvailable, st)
     | Some sd \<Rightarrow>
         if req_bookingTime r \<in> set spec_grid
            \<and> \<not> hasConflict (estimated_duration sd)
                  (existingBookings st (req_service r) (req_bookingDate r))
                  \<lparr>time = req_bookingTime r, available = True\<rparr>
         then create st new_id now r uid
         else (Inl SlotUnavailable, st))"
proof (cases "find (\<lambda>s. name s = req_service r \<and> is_active s \<and> is_available_for_booking s) (services st)")
  case None
  then show ?thesis by (simp add: createBooking_def getAvailableSlots_def)
next
  case (Some sd)
  show ?thesis
    unfolding createBooking_def getAvailableSlots_Some [OF Some]
    by (simp add: Some find_map_eq find_eq_mem)
qed

lemma slots_of_grid:
  assumes "getAvailableSlots st svc date = Inr slots"
  shows "\<exists>sd. find (\<lambda>s. name s = svc \<and> is_active s \<and> is_available_for_booking s) (services st) = Some sd
      \<and> slots = map (\<lambda>t. \<lparr>time = t, available = \<not> hasConflict (estimated_duration sd)
                 (existingBookings st svc date) \<lparr>time = t, available = True\<rparr>\<rparr>) spec_grid"
proof (cases "find (\<lambda>s. name s = svc \<and> is_active s \<and> is_available_for_booking s) (services st)")
  case None
  with assms show ?thesis by (simp add: getAvailableSlots_def)
next
  case (Some sd)
  with assms getAvailableSlots_Some [OF Some, of date] show ?thesis by simp
qed

text \<open>
  C3. \<open>createBooking\<close> fails with \<open>SlotUnavailable\<close> exactly when the availability
  computation returns its slots and the requested time is not the time of any of them, or
  the slot with that time is marked unavailable. The time is compared as a string: any
  time that is not literally one of the eight grid times is rejected, with
  \<open>SlotUnavailable\<close> when the service is active and bookable, and nothing is stored.
\<close>

theorem createBooking_SlotUnavailable:
  "(fst (createBooking st new_id now r uid) = Inl SlotUnavailable \<longleftrightarrow>
     (\<exists>slots. getAvailableSlots st (req_service r) (req_bookingDate r) = Inr slots
        \<and> (req_bookingTime r \<notin> time ` set slots
            \<or> (\<exists>sl\<in>set slots. time sl = req_bookingTime r \<and> \<not> available sl))))
   \<and> ((\<exists>s\<in>set (services st). name s = req_service r \<and> is_active s \<and> is_available_for_booking s)
          \<and> req_bookingTime r \<notin> set spec_grid
        \<longrightarrow> createBooking st new_id now r uid = (Inl SlotUnavailable, st))
   \<and> (req_bookingTime r \<notin> set spec_grid
        \<longrightarrow> (\<exists>e. createBooking st new_id now r uid = (Inl e, st)))"
proof (cases "find (\<lambda>s. name s = req_service r \<and> is_active s \<and> is_available_for_booking s) (services st)")
  case None
  then have n: "\<not> (\<exists>s\<in>set (services st). name s = req_service r \<and> is_active s \<and> is_available_for_booking s)"
    by (auto simp: find_None_iff)
  have g: "getAvailableSlots st (req_service r) (req_bookingDate r) = Inl ServiceNotAvailable"
    using None by (simp add: getAvailableSlots_def)
  have c: "createBooking st new_id now r uid = (Inl ServiceNotAvailable, st)"
    using None by (simp add: createBooking_unfold)
  show ?thesis using n unfolding g c by simp
next
  case (Some sd)
  let ?h = "\<lambda>t. hasConflict (estimated_duration sd)
                  (existingBookings st (req_service r) (req_bookingDate r))
                  \<lparr>time = t, available = True\<rparr>"
  let ?slots = "map (\<lambda>t. \<lparr>time = t, available = \<not> ?h t\<rparr>) spec_grid"
  have g: "getAvailableSlots st (req_service r) (req_bookingDate r) = Inr ?slots"
    by (rule getAvailableSlots_Some [OF Some])
  have times: "time ` set ?slots = set spec_grid" by (auto simp: image_iff)
  have unav: "(\<exists>sl\<in>set ?slots. time sl = req_bookingTime r \<and> \<not> available sl)
      \<longleftrightarrow> (req_bookingTime r \<in> set spec_grid \<and> ?h (req_bookingTime r))"
    by auto
  obtain svc where svc: "find (\<lambda>s. name s = req_service r) (services st) = Some svc"
    using find_named [OF Some] by blast
  obtain b where b: "create st new_id now r uid = (Inr b, st\<lparr>bookings := bookings st @ [b]\<rparr>)"
    using create_Some [OF svc] by blast
  have c: "createBooking st new_id now r uid =
      (if req_bookingTime r \<in> set spec_grid \<and> \<not> ?h (req_bookingTime r)
       then (Inr b, st\<lparr>bookings := bookings st @ [b]\<rparr>) else (Inl SlotUnavailable, st))"
    by (simp add: createBooking_unfold Some b)
  show ?thesis
    unfolding g c
    by (simp only: sum.inject ex_simps simp_thms times unav split: if_splits) auto
qed

lemma demo_find_named:
  "find (\<lambda>s. name s = ''Lock Installation'') (services demo_db) = Some demo_service"
  by (simp add: demo_db_def demo_service_def)

lemma demo_existing:
  "existingBookings demo_db ''Lock Installation'' (2024, 3, 15) = [(''10:00'', 120)]"
  by (simp add: existingBookings_def demo_db_def demo_booking_def)

theorem createBooking_SlotUnavailable_witness:
  "(\<exists>s\<in>set (services demo_db). name s = ''Lock Installation'' \<and> is_active s \<and> is_available_for_booking s)
   \<and> ''09:30'' \<notin> set spec_grid
   \<and> createBooking demo_db ''b2'' 2 (demo_request\<lparr>req_bookingTime := ''09:30''\<rparr>) None
       = (Inl SlotUnavailable, demo_db)"
proof -
  have h: "\<exists>s\<in>set (services demo_db). name s = ''Lock Installation'' \<and> is_active s \<and> is_available_for_booking s"
    by (simp add: demo_db_def demo_service_def)
  have g: "''09:30'' \<notin> set spec_grid" by (simp add: spec_grid_def)
  have r: "req_service (demo_request\<lparr>req_bookingTime := ''09:30''\<rparr>) = ''Lock Installation''"
      "req_bookingTime (demo_request\<lparr>req_bookingTime := ''09:30''\<rparr>) = ''09:30''"
    by (simp_all add: demo_request_def)
  show ?thesis
    using h g createBooking_SlotUnavailable [of demo_db "''b2''" 2 "demo_request\<lparr>req_bookingTime := ''09:30''\<rparr>" None]
    unfolding r by blast
qed

lemma createBooking_inserts:
  assumes "getAvailableSlots st (req_service r) (req_bookingDate r) = Inr slots"
    and "find (\<lambda>sl. time sl = req_bookingTime r) slots = Some sl"
    and "available sl"
  shows "\<exists>svc b. find (\<lambda>s. name s = req_service r) (services st) = Some svc
     \<and> createBooking st new_id now r uid = (Inr b, st\<lparr>bookings := bookings st @ [b]\<rparr>)
     \<and> status b = Pending \<and> duration b = estimated_duration svc
     \<and> estimated_cost b = Some (base_price svc)
     \<and> priority b = (case req_priority r of None \<Rightarrow> Medium | Some p \<Rightarrow> p)"
proof -
  from slots_of_grid [OF assms(1)] obtain sd where
    sd: "find (\<lambda>s. name s = req_service r \<and> is_active s \<and> is_available_for_booking s) (services st) = Some sd"
    by blast
  obtain svc where svc: "find (\<lambda>s. name s = req_service r) (services st) = Some svc"
    using find_named [OF sd] by blast
  have c: "createBooking st new_id now r uid = create st new_id now r uid"
    using assms by (simp add: createBooking_def)
  from create_Some [OF svc] svc show ?thesis
    unfolding c by blast
qed

text \<open>
  C4. When the requested slot is free (the availability computation returns its slots and
  the slot with the requested time is marked available), the service resolves by name and
  \<open>createBooking\<close> returns, and stores, a booking with status pending, with the duration
  and the base price of that service row as duration and estimated cost, and with the
  requested priority, or medium when none was requested.
\<close>

theorem createBooking_pending:
  assumes "getAvailableSlots st (req_service r) (req_bookingDate r) = Inr slots"
    and "find (\<lambda>sl. time sl = req_bookingTime r) slots = Some sl"
    and "available sl"
  shows "\<exists>svc b. find (\<lambda>s. name s = req_service r) (services st) = Some svc
     \<and> createBooking st new_id now r uid = (Inr b, st\<lparr>bookings := bookings st @ [b]\<rparr>)
     \<and> status b = Pending \<and> duration b = estimated_duration svc
     \<and> estimated_cost b = Some (base_price svc)
     \<and> priority b = (case req_priority r of None \<Rightarrow> Medium | Some p \<Rightarrow> p)"
  by (rule createBooking_inserts [OF assms])

lemma demo_slot_1200:
  "find (\<lambda>sl. time sl = req_bookingTime demo_request)
       [\<lparr>time = ''09:00'', available = False\<rparr>, \<lparr>time = ''10:00'', available = False\<rparr>,
        \<lparr>time = ''11:00'', available = False\<rparr>, \<lparr>time = ''12:00'', available = True\<rparr>,
        \<lparr>time = ''13:00'', available = True\<rparr>, \<lparr>time = ''14:00'', available = True\<rparr>,
        \<lparr>time = ''15:00'', available = True\<rparr>, \<lparr>time = ''16:00'', available = True\<rparr>]
     = Some \<lparr>time = ''12:00'', available = True\<rparr>"
  by (simp add: demo_request_def)

theorem createBooking_pending_witness:
  "getAvailableSlots demo_db (req_service demo_request) (req_bookingDate demo_request) =
       Inr [\<lparr>time = ''09:00'', available = False\<rparr>, \<lparr>time = ''10:00'', available = False\<rparr>,
            \<lparr>time = ''11:00'', available = False\<rparr>, \<lparr>time = ''12:00'', available = True\<rparr>,
            \<lparr>time = ''13:00'', available = True\<rparr>, \<lparr>time = ''14:00'', available = True\<rparr>,
            \<lparr>time = ''15:00'', available = True\<rparr>, \<lparr>time = ''16:00'', available = True\<rparr>]
   \<and> available \<lparr>time = ''12:00'', available = True\<rparr>
   \<and> (\<exists>b. createBooking demo_db ''b2'' 2 demo_request None
            = (Inr b, demo_db\<lparr>bookings := bookings demo_db @ [b]\<rparr>)
          \<and> status b = Pending \<and> duration b = 120 \<and> estimated_cost b = Some 150
          \<and> priority b = Medium)"
proof -
  have g: "getAvailableSlots demo_db (req_service demo_request) (req_bookingDate demo_request) =
       Inr [\<lparr>time = ''09:00'', available = False\<rparr>, \<lparr>time = ''10:00'', available = False\<rparr>,
            \<lparr>time = ''11:00'', available = False\<rparr>, \<lparr>time = ''12:00'', available = True\<rparr>,
            \<lparr>time = ''13:00'', available = True\<rparr>, \<lparr>time = ''14:00'', available = True\<rparr>,
            \<lparr>time = ''15:00'', available = True\<rparr>, \<lparr>time = ''16:00'', available = True\<rparr>]"
    using demo_slots by (simp add: demo_request_def)
  have a: "available \<lparr>time = ''12:00'', available = True\<rparr>" by simp
  have n: "find (\<lambda>s. name s = req_service demo_request) (services demo_db) = Some demo_service"
    using demo_find_named by (simp add: demo_request_def)
  have v: "estimated_duration demo_service = 120" "base_price demo_service = 150"
      "req_priority demo_request = None"
    by (simp_all add: demo_service_def demo_request_def)
  from createBooking_pending [OF g demo_slot_1200 a, of "''b2''" 2 None]
  have "\<exists>b. createBooking demo_db ''b2'' 2 demo_request None
            = (Inr b, demo_db\<lparr>bookings := bookings demo_db @ [b]\<rparr>)
          \<and> status b = Pending \<and> duration b = 120 \<and> estimated_cost b = Some 150
          \<and> priority b = Medium"
    unfolding n using v by auto
  with g a show ?thesis by (intro conjI)
qed

text \<open>
  C9. Whenever \<open>createBooking\<close> fails, the store it leaves is the store it was given, and
  the failure is \<open>SlotUnavailable\<close> or the availability step's 'Service not available'
  (the 404 the specification calls \<open>ServiceNotFound\<close>). The store changes only when the
  availability check has passed.
\<close>

theorem createBooking_failure_stores_nothing:
  "(\<forall>e. fst (createBooking st new_id now r uid) = Inl e
        \<longrightarrow> snd (createBooking st new_id now r uid) = st
            \<and> (e = SlotUnavailable \<or> e = ServiceNotAvailable))
   \<and> (snd (createBooking st new_id now r uid) \<noteq> st
        \<longrightarrow> (\<exists>slots sl. getAvailableSlots st (req_service r) (req_bookingDate r) = Inr slots
              \<and> find (\<lambda>sl. time sl = req_bookingTime r) slots = Some sl \<and> available sl))"
proof (cases "getAvailableSlots st (req_service r) (req_bookingDate r)")
  case (Inl e)
  then have "e = ServiceNotAvailable"
    by (auto simp: getAvailableSlots_def Let_def split: option.splits)
  with Inl show ?thesis by (simp add: createBooking_def)
next
  case (Inr slots)
  show ?thesis
  proof (cases "find (\<lambda>sl. time sl = req_bookingTime r) slots")
    case None
    with Inr show ?thesis by (simp add: createBooking_def)
  next
    case (Some sl)
    show ?thesis
    proof (cases "available sl")
      case False
      with Inr Some show ?thesis by (simp add: createBooking_def)
    next
      case True
      from createBooking_inserts [OF Inr Some True, of new_id now uid]
      obtain b where "createBooking st new_id now r uid = (Inr b, st\<lparr>bookings := bookings st @ [b]\<rparr>)"
        by blast
      with Inr Some True show ?thesis by simp
    qed
  qed
qed

lemma demo_occupied:
  "fst (createBooking demo_db ''b2'' 2 (demo_request\<lparr>req_bookingTime := ''10:00''\<rparr>) None)
     = Inl SlotUnavailable"
proof -
  have r: "req_service (demo_request\<lparr>req_bookingTime := ''10:00''\<rparr>) = ''Lock Installation''"
      "req_bookingTime (demo_request\<lparr>req_bookingTime := ''10:00''\<rparr>) = ''10:00''"
      "req_bookingDate (demo_request\<lparr>req_bookingTime := ''10:00''\<rparr>) = (2024, 3, 15)"
    by (simp_all add: demo_request_def)
  have d: "estimated_duration demo_service = 120" by (simp add: demo_service_def)
  have c: "hasConflict 120 [(''10:00'', 120)] \<lparr>time = ''10:00'', available = True\<rparr>"
    by (simp add: hasConflict_def grid_hour_vals num_lt_def num_gt_def num_add_def minutes_div_60_def)
  show ?thesis
    unfolding createBooking_unfold r demo_find_active demo_existing
    using c d by simp
qed

theorem createBooking_failure_stores_nothing_witness:
  "fst (createBooking demo_db ''b2'' 2 (demo_request\<lparr>req_bookingTime := ''10:00''\<rparr>) None)
     = Inl SlotUnavailable
   \<and> snd (createBooking demo_db ''b2'' 2 (demo_request\<lparr>req_bookingTime := ''10:00''\<rparr>) None)
     = demo_db"
  using demo_occupied
    createBooking_failure_stores_nothing
      [of demo_db "''b2''" 2 "demo_request\<lparr>req_bookingTime := ''10:00''\<rparr>" None]
  by blast

section \<open>Updating a booking\<close>

lemma apply_updateData_frame:
  "booking_id (apply_updateData d b) = booking_id b"
  "user_id (apply_updateData d b) = user_id b"
  "service_id (apply_updateData d b) = service_id b"
  "service (apply_updateData d b) = service b"
  "service_type (apply_updateData d b) = service_type b"
  "duration (apply_updateData d b) = duration b"
  "customer_name (apply_updateData d b) = customer_name b"
  "customer_phone (apply_updateData d b) = customer_phone b"
  "customer_email (apply_updateData d b) = customer_email b"
  "service_address (apply_updateData d b) = service_address b"
  "created_at (apply_updateData d b) = created_at b"
  by (simp_all add: apply_updateData_def)

lemma update_rows_id:
  "filter (\<lambda>b. booking_id b = ident)
      (map (\<lambda>b. if booking_id b = ident then apply_updateData d b else b) rows)
    = map (apply_updateData d) (filter (\<lambda>b. booking_id b = ident) rows)"
  by (induction rows) (simp_all add: apply_updateData_frame)

lemma map_no_match:
  assumes "filter (\<lambda>b. booking_id b = ident) rows = []"
  shows "map (\<lambda>b. if booking_id b = ident then f b else b) rows = rows"
proof -
  have "\<forall>b\<in>set rows. booking_id b \<noteq> ident"
    using assms by (simp add: filter_empty_conv)
  then show ?thesis by (induction rows) simp_all
qed

lemma update_snd:
  "snd (update st now ident u) =
     st\<lparr>bookings := map (\<lambda>b. if booking_id b = ident then apply_updateData (updateData now u) b else b)
                        (bookings st)\<rparr>"
proof (cases "filter (\<lambda>b. booking_id b = ident) (bookings st)")
  case Nil
  then show ?thesis
    by (simp add: update_def Let_def update_rows_id map_no_match)
next
  case (Cons b bs)
  then show ?thesis
    by (simp add: update_def Let_def update_rows_id)
qed

lemma update_fst:
  "fst (update st now ident u) =
     (case filter (\<lambda>b. booking_id b = ident) (bookings st) of
        [] \<Rightarrow> Inl BookingNotFound
      | b # _ \<Rightarrow> Inr (apply_updateData (updateData now u) b))"
  by (simp add: update_def Let_def update_rows_id split: list.splits)

lemma status_only_row:
  "apply_updateData (updateData now (status_only s)) b =
     b\<lparr>updated_at := now, status := s,
       confirmed_at := (if s = Confirmed then Some now else confirmed_at b),
       started_at := (if s = InProgress then Some now else started_at b),
       completed_at := (if s = Completed then Some now else completed_at b)\<rparr>"
  by (simp add: apply_updateData_def updateData_def status_only_def assign_def assign_nullable_def truthy_def)

lemma status_step_rows:
  "bookings (snd (updateBookingStatus st now ident s)) =
     map (\<lambda>b. if booking_id b = ident
              then b\<lparr>updated_at := now, status := s,
                     confirmed_at := (if s = Confirmed then Some now else confirmed_at b),
                     started_at := (if s = InProgress then Some now else started_at b),
                     completed_at := (if s = Completed then Some now else completed_at b)\<rparr>
              else b) (bookings st)"
  by (simp add: updateBookingStatus_def update_snd status_only_row)

lemma status_updates_keep:
  "length (bookings (status_updates st ups)) = length (bookings st)
   \<and> (\<forall>i<length (bookings st).
         booking_id (bookings (status_updates st ups) ! i) = booking_id (bookings st ! i)
       \<and> (confirmed_at (bookings st ! i) \<noteq> None \<longrightarrow> confirmed_at (bookings (status_updates st ups) ! i) \<noteq> None)
       \<and> (started_at (bookings st ! i) \<noteq> None \<longrightarrow> started_at (bookings (status_updates st ups) ! i) \<noteq> None)
       \<and> (completed_at (bookings st ! i) \<noteq> None \<longrightarrow> completed_at (bookings (status_updates st ups) ! i) \<noteq> None))"
proof (induction ups arbitrary: st)
  case Nil
  show ?case by simp
next
  case (Cons u ups)
  obtain now ident s where u: "u = (now, ident, s)" by (cases u) auto
  let ?st = "snd (updateBookingStatus st now ident s)"
  have len: "length (bookings ?st) = length (bookings st)"
    by (simp add: status_step_rows)
  have step: "\<forall>i<length (bookings st).
         booking_id (bookings ?st ! i) = booking_id (bookings st ! i)
       \<and> (confirmed_at (bookings st ! i) \<noteq> None \<longrightarrow> confirmed_at (bookings ?st ! i) \<noteq> None)
       \<and> (started_at (bookings st ! i) \<noteq> None \<longrightarrow> started_at (bookings ?st ! i) \<noteq> None)
       \<and> (completed_at (bookings st ! i) \<noteq> None \<longrightarrow> completed_at (bookings ?st ! i) \<noteq> None)"
    by (simp add: status_step_rows)
  from Cons.IH [of ?st] len step show ?case
    unfolding u by simp
qed

text \<open>
  C6. For an id that exists, \<open>updateBookingStatus\<close> succeeds, writes the status (and
  \<open>updated_at\<close>) on the rows with that id, and sets \<open>confirmed_at\<close>, \<open>started_at\<close> or
  \<open>completed_at\<close> to the current time exactly when the status is confirmed, in progress
  or completed; the other two timestamps, every other column and every other row stay as
  they were. Through any later run of status updates a timestamp that is set stays set.
\<close>

theorem updateBookingStatus_timestamps:
  assumes "b \<in> set (bookings st)" and "booking_id b = ident"
  shows "(\<exists>b0\<in>set (bookings st). booking_id b0 = ident
            \<and> updateBookingStatus st now ident s =
                (Inr (b0\<lparr>updated_at := now, status := s,
                        confirmed_at := (if s = Confirmed then Some now else confirmed_at b0),
                        started_at := (if s = InProgress then Some now else started_at b0),
                        completed_at := (if s = Completed then Some now else completed_at b0)\<rparr>),
                 snd (updateBookingStatus st now ident s)))
     \<and> services (snd (updateBookingStatus st now ident s)) = services st
     \<and> bookings (snd (updateBookingStatus st now ident s)) =
         map (\<lambda>b. if booking_id b = ident
                  then b\<lparr>updated_at := now, status := s,
                         confirmed_at := (if s = Confirmed then Some now else confirmed_at b),
                         started_at := (if s = InProgress then Some now else started_at b),
                         completed_at := (if s = Completed then Some now else completed_at b)\<rparr>
                  else b) (bookings st)
     \<and> (\<forall>ups. length (bookings (status_updates st ups)) = length (bookings st)
          \<and> (\<forall>i<length (bookings st).
                booking_id (bookings (status_updates st ups) ! i) = booking_id (bookings st ! i)
              \<and> (confirmed_at (bookings st ! i) \<noteq> None
                    \<longrightarrow> confirmed_at (bookings (status_updates st ups) ! i) \<noteq> None)
              \<and> (started_at (bookings st ! i) \<noteq> None
                    \<longrightarrow> started_at (bookings (status_updates st ups) ! i) \<noteq> None)
              \<and> (completed_at (bookings st ! i) \<noteq> None
                    \<longrightarrow> completed_at (bookings (status_updates st ups) ! i) \<noteq> None)))"
proof -
  from assms have "filter (\<lambda>b. booking_id b = ident) (bookings st) \<noteq> []"
    by (auto simp: filter_empty_conv)
  then obtain b0 bs where f: "filter (\<lambda>b. booking_id b = ident) (bookings st) = b0 # bs"
    by (cases "filter (\<lambda>b. booking_id b = ident) (bookings st)") auto
  then have "b0 \<in> set (filter (\<lambda>b. booking_id b = ident) (bookings st))" by simp
  then have b0: "b0 \<in> set (bookings st)" "booking_id b0 = ident" by simp_all
  have "fst (updateBookingStatus st now ident s) =
      Inr (b0\<lparr>updated_at := now, status := s,
              confirmed_at := (if s = Confirmed then Some now else confirmed_at b0),
              started_at := (if s = InProgress then Some now else started_at b0),
              completed_at := (if s = Completed then Some now else completed_at b0)\<rparr>)"
    by (simp add: updateBookingStatus_def update_fst f status_only_row)
  then have 1: "updateBookingStatus st now ident s =
      (Inr (b0\<lparr>updated_at := now, status := s,
              confirmed_at := (if s = Confirmed then Some now else confirmed_at b0),
              started_at := (if s = InProgress then Some now else started_at b0),
              completed_at := (if s = Completed then Some now else completed_at b0)\<rparr>),
       snd (updateBookingStatus st now ident s))"
    by (metis prod.collapse)
  have 2: "services (snd (updateBookingStatus st now ident s)) = services st"
    by (simp add: updateBookingStatus_def update_snd)
  show ?thesis
    using b0 1 2 status_step_rows [of st now ident s] status_updates_keep [of st]
    by blast
qed

lemma demo_confirm_then_start:
  "bookings (status_updates demo_db [(5, ''b1'', Confirmed), (7, ''b1'', InProgress)]) =
     [demo_booking\<lparr>updated_at := 7, status := InProgress, confirmed_at := Some 5,
        started_at := Some 7\<rparr>]"
  by (simp add: status_step_rows) (simp add: demo_db_def demo_booking_def)

theorem updateBookingStatus_timestamps_witness:
  "demo_booking \<in> set (bookings demo_db) \<and> booking_id demo_booking = ''b1''
   \<and> bookings (snd (updateBookingStatus demo_db 5 ''b1'' Confirmed)) =
       [demo_booking\<lparr>updated_at := 5, status := Confirmed, confirmed_at := Some 5\<rparr>]
   \<and> bookings (status_updates demo_db [(5, ''b1'', Confirmed), (7, ''b1'', InProgress)]) =
       [demo_booking\<lparr>updated_at := 7, status := InProgress, confirmed_at := Some 5,
          started_at := Some 7\<rparr>]"
proof -
  have m: "demo_booking \<in> set (bookings demo_db)" by (simp add: demo_db_def)
  have i: "booking_id demo_booking = ''b1''" by (simp add: demo_booking_def)
  from updateBookingStatus_timestamps [OF m i, of 5 Confirmed]
  have "bookings (snd (updateBookingStatus demo_db 5 ''b1'' Confirmed)) =
         map (\<lambda>b. if booking_id b = ''b1''
                  then b\<lparr>updated_at := 5, status := Confirmed,
                         confirmed_at := (if Confirmed = Confirmed then Some 5 else confirmed_at b),
                         started_at := (if Confirmed = InProgress then Some 5 else started_at b),
                         completed_at := (if Confirmed = Completed then Some 5 else completed_at b)\<rparr>
                  else b) (bookings demo_db)"
    by blast
  then have "bookings (snd (updateBookingStatus demo_db 5 ''b1'' Confirmed)) =
       [demo_booking\<lparr>updated_at := 5, status := Confirmed, confirmed_at := Some 5\<rparr>]"
    by (simp add: demo_db_def i)
  with m i demo_confirm_then_start show ?thesis by (intro conjI)
qed

lemma truthy_cases: "truthy x = None \<or> (\<exists>v. v \<noteq> [] \<and> x = Some v \<and> truthy x = Some v)"
  by (cases x) (simp_all add: truthy_def)

lemma assign_nullable_truthy:
  "assign_nullable (truthy x) old = old
   \<or> (\<exists>v. v \<noteq> [] \<and> x = Some v \<and> assign_nullable (truthy x) old = Some v)"
  by (cases x) (simp_all add: truthy_def assign_nullable_def)

lemma row_omitted:
  "upd_status u = None \<longrightarrow>
      status (apply_updateData (updateData now u) b) = status b
    \<and> confirmed_at (apply_updateData (updateData now u) b) = confirmed_at b
    \<and> started_at (apply_updateData (updateData now u) b) = started_at b
    \<and> completed_at (apply_updateData (updateData now u) b) = completed_at b"
  "upd_bookingDate u = None \<longrightarrow> booking_date (apply_updateData (updateData now u) b) = booking_date b"
  "upd_bookingTime u = None \<longrightarrow> booking_time (apply_updateData (updateData now u) b) = booking_time b"
  "upd_serviceDescription u = None \<longrightarrow>
      service_description (apply_updateData (updateData now u) b) = service_description b"
  "upd_specialInstructions u = None \<longrightarrow>
      special_instructions (apply_updateData (updateData now u) b) = special_instructions b"
  "upd_priority u = None \<longrightarrow> priority (apply_updateData (updateData now u) b) = priority b"
  "upd_estimatedCost u = None \<longrightarrow> estimated_cost (apply_updateData (updateData now u) b) = estimated_cost b"
  "upd_actualCost u = None \<longrightarrow> actual_cost (apply_updateData (updateData now u) b) = actual_cost b"
  "upd_assignedTechnician u = None \<longrightarrow>
      assigned_technician (apply_updateData (updateData now u) b) = assigned_technician b"
  "upd_notes u = None \<longrightarrow> booking_notes (apply_updateData (updateData now u) b) = booking_notes b"
  by (simp_all add: apply_updateData_def updateData_def assign_def assign_nullable_def truthy_def)

lemma row_text:
  "service_description (apply_updateData (updateData now u) b) = service_description b
   \<or> (\<exists>v. v \<noteq> [] \<and> upd_serviceDescription u = Some v
          \<and> service_description (apply_updateData (updateData now u) b) = Some v)"
  "special_instructions (apply_updateData (updateData now u) b) = special_instructions b
   \<or> (\<exists>v. v \<noteq> [] \<and> upd_specialInstructions u = Some v
          \<and> special_instructions (apply_updateData (updateData now u) b) = Some v)"
  "assigned_technician (apply_updateData (updateData now u) b) = assigned_technician b
   \<or> (\<exists>v. v \<noteq> [] \<and> upd_assignedTechnician u = Some v
          \<and> assigned_technician (apply_updateData (updateData now u) b) = Some v)"
  "booking_notes (apply_updateData (updateData now u) b) = booking_notes b
   \<or> (\<exists>v. v \<noteq> [] \<and> upd_notes u = Some v
          \<and> booking_notes (apply_updateData (updateData now u) b) = Some v)"
  using assign_nullable_truthy [of "upd_serviceDescription u" "service_description b"]
        assign_nullable_truthy [of "upd_specialInstructions u" "special_instructions b"]
        assign_nullable_truthy [of "upd_assignedTechnician u" "assigned_technician b"]
        assign_nullable_truthy [of "upd_notes u" "booking_notes b"]
  by (simp_all add: apply_updateData_def updateData_def)

lemma row_costs:
  "upd_estimatedCost u = Some c \<longrightarrow>
     estimated_cost (apply_updateData (updateData now u) b) = store_cost c"
  "upd_actualCost u = Some c \<longrightarrow>
     actual_cost (apply_updateData (updateData now u) b) = store_cost c"
  by (simp_all add: apply_updateData_def updateData_def assign_def)

text \<open>A cost of at most two decimal places is stored as it is.\<close>

lemma decimal_10_2_exact: "decimal_10_2 (of_int n / 100) = of_int n / 100"
proof -
  have "\<lfloor>(of_int n :: rat) + 1 / 2\<rfloor> = n" by linarith
  moreover have "\<lfloor>- (of_int n :: rat) + 1 / 2\<rfloor> = - n" by linarith
  ultimately show ?thesis
    by (simp add: decimal_10_2_def round_half_away_def)
qed

lemma decimal_10_2_tie: "decimal_10_2 (2469 / 200) = 247 / 20"
  by (simp add: decimal_10_2_def round_half_away_def)

lemma spec_text_kept_iff:
  "spec_text_kept supplied old new \<longleftrightarrow>
     (new = old \<or> (\<exists>v. v \<noteq> [] \<and> supplied = Some v \<and> new = Some v))"
  by (cases supplied) (auto simp: spec_text_kept_def)

lemma row_frame: "spec_update_frame u b (apply_updateData (updateData now u) b)"
  unfolding spec_update_frame_def
  using row_omitted [of u now b] by (simp add: apply_updateData_frame)

text \<open>
  C10. An update leaves the services and every row with another id alone. On each row it
  leaves every column that \<open>UpdateBookingRequest\<close> cannot name, and every column whose
  field is omitted from the request (\<open>spec_update_frame\<close>); with no status supplied the
  three transition timestamps stay too, so that besides the supplied fields only
  \<open>updated_at\<close> and those timestamps can change. Each optional text column (service
  description, special instructions, assigned technician, notes) either keeps its value or
  takes a supplied non-empty string (\<open>spec_text_kept\<close>): it is never reset to NULL or to the
  empty string. The two costs are assigned whenever they are present: a null is stored
  as NULL, a number as the \<open>decimal(10, 2)\<close> column rounds it (\<open>store_cost\<close>; by
  \<open>decimal_10_2_exact\<close> a cost of at most two decimal places is stored as it is).
\<close>

theorem update_frame:
  "services (snd (update st now ident u)) = services st
   \<and> length (bookings (snd (update st now ident u))) = length (bookings st)
   \<and> (\<forall>i<length (bookings st).
        (booking_id (bookings st ! i) \<noteq> ident
           \<longrightarrow> bookings (snd (update st now ident u)) ! i = bookings st ! i)
      \<and> spec_update_frame u (bookings st ! i) (bookings (snd (update st now ident u)) ! i)
      \<and> spec_text_kept (upd_serviceDescription u) (service_description (bookings st ! i))
           (service_description (bookings (snd (update st now ident u)) ! i))
      \<and> spec_text_kept (upd_specialInstructions u) (special_instructions (bookings st ! i))
           (special_instructions (bookings (snd (update st now ident u)) ! i))
      \<and> spec_text_kept (upd_assignedTechnician u) (assigned_technician (bookings st ! i))
           (assigned_technician (bookings (snd (update st now ident u)) ! i))
      \<and> spec_text_kept (upd_notes u) (booking_notes (bookings st ! i))
           (booking_notes (bookings (snd (update st now ident u)) ! i))
      \<and> (booking_id (bookings st ! i) = ident \<longrightarrow>
            (\<forall>c. upd_estimatedCost u = Some c
                 \<longrightarrow> estimated_cost (bookings (snd (update st now ident u)) ! i) = store_cost c)
          \<and> (\<forall>c. upd_actualCost u = Some c
                 \<longrightarrow> actual_cost (bookings (snd (update st now ident u)) ! i) = store_cost c)))"
proof -
  let ?f = "\<lambda>b. if booking_id b = ident then apply_updateData (updateData now u) b else b"
  have rows: "bookings (snd (update st now ident u)) = map ?f (bookings st)"
    by (simp add: update_snd)
  have self: "spec_update_frame u b b" for b
    by (simp add: spec_update_frame_def)
  have row: "(booking_id b \<noteq> ident \<longrightarrow> ?f b = b)
      \<and> spec_update_frame u b (?f b)
      \<and> spec_text_kept (upd_serviceDescription u) (service_description b) (service_description (?f b))
      \<and> spec_text_kept (upd_specialInstructions u) (special_instructions b) (special_instructions (?f b))
      \<and> spec_text_kept (upd_assignedTechnician u) (assigned_technician b) (assigned_technician (?f b))
      \<and> spec_text_kept (upd_notes u) (booking_notes b) (booking_notes (?f b))
      \<and> (booking_id b = ident \<longrightarrow>
            (\<forall>c. upd_estimatedCost u = Some c \<longrightarrow> estimated_cost (?f b) = store_cost c)
          \<and> (\<forall>c. upd_actualCost u = Some c \<longrightarrow> actual_cost (?f b) = store_cost c))" for b
    using row_frame [of u b now] self [of b] row_text [of now u b] row_costs [of u _ now b]
    by (simp add: spec_text_kept_iff)
  have "services (snd (update st now ident u)) = services st"
    by (simp add: update_snd)
  moreover have "length (bookings (snd (update st now ident u))) = length (bookings st)"
    by (simp add: rows)
  ultimately show ?thesis
    unfolding rows using row by simp
qed

theorem update_frame_witness:
  "0 < length (bookings demo_noted_db)
   \<and> booking_id (bookings demo_noted_db ! 0) = ''b1''
   \<and> upd_notes demo_update = Some [] \<and> upd_status demo_update = None
   \<and> upd_estimatedCost demo_update = Some None
   \<and> upd_actualCost demo_update = Some (Some (2469 / 200))
   \<and> booking_notes (bookings (snd (update demo_noted_db 9 ''b1'' demo_update)) ! 0) = Some ''call first''
   \<and> status (bookings (snd (update demo_noted_db 9 ''b1'' demo_update)) ! 0) = Pending
   \<and> estimated_cost (bookings (snd (update demo_noted_db 9 ''b1'' demo_update)) ! 0) = None
   \<and> actual_cost (bookings (snd (update demo_noted_db 9 ''b1'' demo_update)) ! 0) = Some (247 / 20)"
proof -
  let ?b' = "bookings (snd (update demo_noted_db 9 ''b1'' demo_update)) ! 0"
  have l: "0 < length (bookings demo_noted_db)" by (simp add: demo_noted_db_def)
  have b: "bookings demo_noted_db ! 0 = demo_booking\<lparr>booking_notes := Some ''call first''\<rparr>"
    by (simp add: demo_noted_db_def)
  have i: "booking_id (bookings demo_noted_db ! 0) = ''b1''"
    unfolding b by (simp add: demo_booking_def)
  have u: "upd_notes demo_update = Some []" "upd_status demo_update = None"
      "upd_estimatedCost demo_update = Some None"
      "upd_actualCost demo_update = Some (Some (2469 / 200))"
    by (simp_all add: demo_update_def)
  from update_frame [of demo_noted_db 9 "''b1''" demo_update] l
  have f: "spec_update_frame demo_update (bookings demo_noted_db ! 0) ?b'"
    and t: "spec_text_kept (upd_notes demo_update) (booking_notes (bookings demo_noted_db ! 0))
              (booking_notes ?b')"
    and c: "booking_id (bookings demo_noted_db ! 0) = ''b1'' \<longrightarrow>
              (\<forall>c. upd_estimatedCost demo_update = Some c \<longrightarrow> estimated_cost ?b' = store_cost c)
            \<and> (\<forall>c. upd_actualCost demo_update = Some c \<longrightarrow> actual_cost ?b' = store_cost c)"
    by blast+
  from t have n: "booking_notes ?b' = Some ''call first''"
    unfolding u b by (simp add: spec_text_kept_iff)
  from f have s: "status ?b' = Pending"
    unfolding spec_update_frame_def u b by (simp add: demo_booking_def)
  from c i u have "estimated_cost ?b' = store_cost None" by blast
  then have e: "estimated_cost ?b' = None" by (simp add: store_cost_def)
  from c i u have "actual_cost ?b' = store_cost (Some (2469 / 200))" by blast
  then have a: "actual_cost ?b' = Some (247 / 20)"
    by (simp add: store_cost_def decimal_10_2_tie)
  from l i u n s e a show ?thesis by (intro conjI)
qed

section \<open>Cancelled bookings and statistics\<close>

lemma getAvailableSlots_cong:
  assumes "services st = services st'"
    and "existingBookings st svc date = existingBookings st' svc date"
  shows "getAvailableSlots st svc date = getAvailableSlots st' svc date"
  unfolding getAvailableSlots_def assms ..

lemma existingBookings_active:
  "existingBookings st svc date =
     existingBookings (st\<lparr>bookings := filter (\<lambda>b. status b \<noteq> Cancelled \<and> status b \<noteq> NoShow) (bookings st)\<rparr>) svc date"
proof -
  have "filter (\<lambda>b. booking_date b = date \<and> service b = svc \<and> status b \<notin> {Cancelled, NoShow}) (bookings st)
      = filter (\<lambda>b. booking_date b = date \<and> service b = svc \<and> status b \<notin> {Cancelled, NoShow})
          (filter (\<lambda>b. status b \<noteq> Cancelled \<and> status b \<noteq> NoShow) (bookings st))"
    by (induction "bookings st") (auto intro: filter_cong)
  then show ?thesis by (simp add: existingBookings_def)
qed

lemma delete_snd:
  "snd (delete st now ident) =
     st\<lparr>bookings := map (\<lambda>b. if booking_id b = ident then b\<lparr>status := Cancelled, updated_at := now\<rparr> else b)
                        (bookings st)\<rparr>"
proof -
  let ?g = "\<lambda>b. b\<lparr>status := Cancelled, updated_at := now\<rparr>"
  have f: "filter (\<lambda>b. booking_id b = ident) (map (\<lambda>b. if booking_id b = ident then ?g b else b) rows)
      = map ?g (filter (\<lambda>b. booking_id b = ident) rows)" for rows
    by (induction rows) simp_all
  show ?thesis
  proof (cases "filter (\<lambda>b. booking_id b = ident) (bookings st)")
    case Nil
    then show ?thesis by (simp add: delete_def Let_def f map_no_match)
  next
    case (Cons b bs)
    then show ?thesis by (simp add: delete_def Let_def f)
  qed
qed

lemma existingBookings_cancelled:
  "existingBookings (snd (cancelBooking st now ident)) svc date =
     existingBookings (st\<lparr>bookings := filter (\<lambda>b. booking_id b \<noteq> ident) (bookings st)\<rparr>) svc date"
proof -
  let ?P = "\<lambda>b. booking_date b = date \<and> service b = svc \<and> status b \<notin> {Cancelled, NoShow}"
  let ?m = "\<lambda>b. if booking_id b = ident then b\<lparr>status := Cancelled, updated_at := now\<rparr> else b"
  have r: "filter ?P (map ?m rows) = filter ?P (filter (\<lambda>b. booking_id b \<noteq> ident) rows)" for rows
    by (induction rows) simp_all
  have a: "bookings (snd (cancelBooking st now ident)) = map ?m (bookings st)"
    by (simp add: cancelBooking_def delete_snd)
  have b: "bookings (st\<lparr>bookings := filter (\<lambda>b. booking_id b \<noteq> ident) (bookings st)\<rparr>)
      = filter (\<lambda>b. booking_id b \<noteq> ident) (bookings st)"
    by simp
  show ?thesis
    unfolding existingBookings_def a b r ..
qed

lemma sql_sum_coalesce:
  "coalesce (sql_sum xs) 0 = sum_list (map (\<lambda>x. case x of None \<Rightarrow> 0 | Some v \<Rightarrow> v) xs)"
proof -
  have "sum_list (List.map_filter id xs) = sum_list (map (\<lambda>x. case x of None \<Rightarrow> 0 | Some v \<Rightarrow> v) xs)"
    by (induction xs) (simp_all add: List.map_filter_simps split: option.splits)
  then show ?thesis
    by (cases "List.map_filter id xs") (simp_all add: sql_sum_def coalesce_def)
qed

lemma existingBookings_no_show:
  "existingBookings (snd (updateBookingStatus st now ident NoShow)) svc date =
     existingBookings (st\<lparr>bookings := filter (\<lambda>b. booking_id b \<noteq> ident) (bookings st)\<rparr>) svc date"
proof -
  let ?P = "\<lambda>b. booking_date b = date \<and> service b = svc \<and> status b \<notin> {Cancelled, NoShow}"
  let ?m = "\<lambda>b. if booking_id b = ident
              then b\<lparr>updated_at := now, status := NoShow,
                     confirmed_at := (if NoShow = Confirmed then Some now else confirmed_at b),
                     started_at := (if NoShow = InProgress then Some now else started_at b),
                     completed_at := (if NoShow = Completed then Some now else completed_at b)\<rparr>
              else b"
  have r: "filter ?P (map ?m rows) = filter ?P (filter (\<lambda>b. booking_id b \<noteq> ident) rows)" for rows
    by (induction rows) simp_all
  have a: "bookings (snd (updateBookingStatus st now ident NoShow)) = map ?m (bookings st)"
    by (rule status_step_rows)
  have b: "bookings (st\<lparr>bookings := filter (\<lambda>b. booking_id b \<noteq> ident) (bookings st)\<rparr>)
      = filter (\<lambda>b. booking_id b \<noteq> ident) (bookings st)"
    by simp
  show ?thesis
    unfolding existingBookings_def a b r ..
qed

text \<open>
  C5. A cancelled or no-show booking is not among the bookings the conflict check
  consults: the fetched bookings, and so the slots, are those of the store without
  such rows. \<open>getBookingsByDateRange\<close> returns stored rows only, none of them cancelled or
  no-show. Hence after \<open>cancelBooking\<close> (and after a status update to no-show) the
  availability is that of the store without the rows of that id: the slots only
  that booking occupied are free again.
\<close>

theorem cancelled_excluded:
  "existingBookings st svc date =
     existingBookings (st\<lparr>bookings := filter (\<lambda>b. status b \<noteq> Cancelled \<and> status b \<noteq> NoShow) (bookings st)\<rparr>) svc date
   \<and> getAvailableSlots st svc date =
     getAvailableSlots (st\<lparr>bookings := filter (\<lambda>b. status b \<noteq> Cancelled \<and> status b \<noteq> NoShow) (bookings st)\<rparr>) svc date
   \<and> (\<forall>b\<in>set (getBookingsByDateRange st startDate endDate technician).
         b \<in> set (bookings st) \<and> status b \<noteq> Cancelled \<and> status b \<noteq> NoShow)
   \<and> getAvailableSlots (snd (cancelBooking st now ident)) svc date =
       getAvailableSlots (st\<lparr>bookings := filter (\<lambda>b. booking_id b \<noteq> ident) (bookings st)\<rparr>) svc date
   \<and> getAvailableSlots (snd (updateBookingStatus st now ident NoShow)) svc date =
       getAvailableSlots (st\<lparr>bookings := filter (\<lambda>b. booking_id b \<noteq> ident) (bookings st)\<rparr>) svc date"
proof -
  have 1: "getAvailableSlots st svc date =
     getAvailableSlots (st\<lparr>bookings := filter (\<lambda>b. status b \<noteq> Cancelled \<and> status b \<noteq> NoShow) (bookings st)\<rparr>) svc date"
    by (rule getAvailableSlots_cong) (simp, rule existingBookings_active)
  have 2: "\<forall>b\<in>set (getBookingsByDateRange st startDate endDate technician).
         b \<in> set (bookings st) \<and> status b \<noteq> Cancelled \<and> status b \<noteq> NoShow"
    by (simp add: getBookingsByDateRange_def)
  have 3: "getAvailableSlots (snd (cancelBooking st now ident)) svc date =
       getAvailableSlots (st\<lparr>bookings := filter (\<lambda>b. booking_id b \<noteq> ident) (bookings st)\<rparr>) svc date"
    by (rule getAvailableSlots_cong) (simp add: cancelBooking_def delete_snd, rule existingBookings_cancelled)
  have 4: "getAvailableSlots (snd (updateBookingStatus st now ident NoShow)) svc date =
       getAvailableSlots (st\<lparr>bookings := filter (\<lambda>b. booking_id b \<noteq> ident) (bookings st)\<rparr>) svc date"
    by (rule getAvailableSlots_cong) (simp add: updateBookingStatus_def update_snd, rule existingBookings_no_show)
  from existingBookings_active [of st svc date] 1 2 3 4 show ?thesis by (intro conjI)
qed

lemma demo_without_b1:
  "getAvailableSlots (demo_db\<lparr>bookings := filter (\<lambda>b. booking_id b \<noteq> ''b1'') (bookings demo_db)\<rparr>)
      ''Lock Installation'' (2024, 3, 15) =
     Inr [\<lparr>time = ''09:00'', available = True\<rparr>, \<lparr>time = ''10:00'', available = True\<rparr>,
          \<lparr>time = ''11:00'', available = True\<rparr>, \<lparr>time = ''12:00'', available = True\<rparr>,
          \<lparr>time = ''13:00'', available = True\<rparr>, \<lparr>time = ''14:00'', available = True\<rparr>,
          \<lparr>time = ''15:00'', available = True\<rparr>, \<lparr>time = ''16:00'', available = True\<rparr>]"
proof -
  let ?st = "demo_db\<lparr>bookings := filter (\<lambda>b. booking_id b \<noteq> ''b1'') (bookings demo_db)\<rparr>"
  have f: "find (\<lambda>s. name s = ''Lock Installation'' \<and> is_active s \<and> is_available_for_booking s) (services ?st)
      = Some demo_service"
    using demo_find_active by simp
  have e: "existingBookings ?st ''Lock Installation'' (2024, 3, 15) = []"
    by (simp add: existingBookings_def demo_db_def demo_booking_def)
  show ?thesis
    unfolding getAvailableSlots_Some [OF f] e
    by (simp add: spec_grid_def hasConflict_def)
qed

theorem cancelled_excluded_witness:
  "getAvailableSlots demo_db ''Lock Installation'' (2024, 3, 15) =
     Inr [\<lparr>time = ''09:00'', available = False\<rparr>, \<lparr>time = ''10:00'', available = False\<rparr>,
          \<lparr>time = ''11:00'', available = False\<rparr>, \<lparr>time = ''12:00'', available = True\<rparr>,
          \<lparr>time = ''13:00'', available = True\<rparr>, \<lparr>time = ''14:00'', available = True\<rparr>,
          \<lparr>time = ''15:00'', available = True\<rparr>, \<lparr>time = ''16:00'', available = True\<rparr>]
   \<and> getAvailableSlots (snd (cancelBooking demo_db 3 ''b1'')) ''Lock Installation'' (2024, 3, 15) =
     Inr [\<lparr>time = ''09:00'', available = True\<rparr>, \<lparr>time = ''10:00'', available = True\<rparr>,
          \<lparr>time = ''11:00'', available = True\<rparr>, \<lparr>time = ''12:00'', available = True\<rparr>,
          \<lparr>time = ''13:00'', available = True\<rparr>, \<lparr>time = ''14:00'', available = True\<rparr>,
          \<lparr>time = ''15:00'', available = True\<rparr>, \<lparr>time = ''16:00'', available = True\<rparr>]
   \<and> getBookingsByDateRange (snd (cancelBooking demo_db 3 ''b1'')) (2024, 3, 1) (2024, 3, 31) None = []"
proof -
  from cancelled_excluded [of demo_db "''Lock Installation''" "(2024, 3, 15)" _ _ _ 3 "''b1''"]
  have "getAvailableSlots (snd (cancelBooking demo_db 3 ''b1'')) ''Lock Installation'' (2024, 3, 15) =
       getAvailableSlots (demo_db\<lparr>bookings := filter (\<lambda>b. booking_id b \<noteq> ''b1'') (bookings demo_db)\<rparr>)
         ''Lock Installation'' (2024, 3, 15)"
    by blast
  then have a: "getAvailableSlots (snd (cancelBooking demo_db 3 ''b1'')) ''Lock Installation'' (2024, 3, 15) =
     Inr [\<lparr>time = ''09:00'', available = True\<rparr>, \<lparr>time = ''10:00'', available = True\<rparr>,
          \<lparr>time = ''11:00'', available = True\<rparr>, \<lparr>time = ''12:00'', available = True\<rparr>,
          \<lparr>time = ''13:00'', available = True\<rparr>, \<lparr>time = ''14:00'', available = True\<rparr>,
          \<lparr>time = ''15:00'', available = True\<rparr>, \<lparr>time = ''16:00'', available = True\<rparr>]"
    unfolding demo_without_b1 .
  have b: "getBookingsByDateRange (snd (cancelBooking demo_db 3 ''b1'')) (2024, 3, 1) (2024, 3, 31) None = []"
    by (simp add: getBookingsByDateRange_def cancelBooking_def delete_snd demo_db_def demo_booking_def)
  from demo_slots a b show ?thesis by (intro conjI)
qed

text \<open>
  C8. For every optional date range, the revenue of \<open>getBookingStats\<close> is the sum, over
  the bookings whose date lies in the range, of the actual cost when it is not null and
  of the estimated cost otherwise, a null counting as 0. A booking with no actual cost
  and estimated cost 150 together with a booking of actual cost 180 give 330. (The
  figure is the exact decimal sum; \<open>parseFloat\<close> returns the double closest to it.)
\<close>

theorem getBookingStats_revenue:
  "revenue (getBookingStats st startDate endDate) =
     sum_list (map (\<lambda>b. case actual_cost b of Some a \<Rightarrow> a
                         | None \<Rightarrow> (case estimated_cost b of Some c \<Rightarrow> c | None \<Rightarrow> 0))
       (filter (\<lambda>b. (\<forall>s. startDate = Some s \<longrightarrow> s \<le> booking_date b)
                   \<and> (\<forall>e. endDate = Some e \<longrightarrow> booking_date b \<le> e)) (bookings st)))
   \<and> (\<forall>svs b1 b2. actual_cost b1 = None \<and> estimated_cost b1 = Some 150 \<and> actual_cost b2 = Some 180
          \<longrightarrow> revenue (getBookingStats \<lparr>services = svs, bookings = [b1, b2]\<rparr> None None) = 330)"
proof -
  have rows: "stats_rows st startDate endDate =
      filter (\<lambda>b. (\<forall>s. startDate = Some s \<longrightarrow> s \<le> booking_date b)
                 \<and> (\<forall>e. endDate = Some e \<longrightarrow> booking_date b \<le> e)) (bookings st)" for st startDate endDate
    unfolding stats_rows_def
    by (rule filter_cong) (auto split: option.splits)
  have c: "(case cost_case b of None \<Rightarrow> 0 | Some v \<Rightarrow> v) =
      (case actual_cost b of Some a \<Rightarrow> a
       | None \<Rightarrow> (case estimated_cost b of Some c \<Rightarrow> c | None \<Rightarrow> 0))" for b
    by (simp add: cost_case_def split: option.splits)
  have gen: "revenue (getBookingStats st startDate endDate) =
     sum_list (map (\<lambda>b. case actual_cost b of Some a \<Rightarrow> a
                         | None \<Rightarrow> (case estimated_cost b of Some c \<Rightarrow> c | None \<Rightarrow> 0))
       (filter (\<lambda>b. (\<forall>s. startDate = Some s \<longrightarrow> s \<le> booking_date b)
                   \<and> (\<forall>e. endDate = Some e \<longrightarrow> booking_date b \<le> e)) (bookings st)))"
      for st startDate endDate
    by (simp add: getBookingStats_def Let_def sql_sum_coalesce comp_def c rows)
  have "\<forall>svs b1 b2. actual_cost b1 = None \<and> estimated_cost b1 = Some 150 \<and> actual_cost b2 = Some 180
          \<longrightarrow> revenue (getBookingStats \<lparr>services = svs, bookings = [b1, b2]\<rparr> None None) = 330"
    unfolding gen by simp
  with gen [of st startDate endDate] show ?thesis by (intro conjI)
qed

theorem getBookingStats_revenue_witness:
  "map actual_cost (bookings stats_demo_db) = [None, Some 180]
   \<and> map estimated_cost (bookings stats_demo_db) = [Some 150, Some 200]
   \<and> revenue (getBookingStats stats_demo_db (Some (2024, 3, 1)) (Some (2024, 3, 31))) = 330
   \<and> revenue (getBookingStats stats_demo_db (Some (2024, 3, 16)) None) = 0"
proof -
  have a: "map actual_cost (bookings stats_demo_db) = [None, Some 180]"
    "map estimated_cost (bookings stats_demo_db) = [Some 150, Some 200]"
    by (simp_all add: stats_demo_db_def)
  from getBookingStats_revenue [of stats_demo_db "Some (2024, 3, 1)" "Some (2024, 3, 31)"]
  have b: "revenue (getBookingStats stats_demo_db (Some (2024, 3, 1)) (Some (2024, 3, 31))) = 330"
    by (simp add: stats_demo_db_def demo_booking_def)
  from getBookingStats_revenue [of stats_demo_db "Some (2024, 3, 16)" None]
  have c: "revenue (getBookingStats stats_demo_db (Some (2024, 3, 16)) None) = 0"
    by (simp add: stats_demo_db_def demo_booking_def)
  from a b c show ?thesis by (intro conjI)
qed

section \<open>The check-then-insert race\<close>

lemma double_booked_append:
  assumes "occupies b1" "occupies b2" "same_slot b1 b2"
  shows "double_booked_rows (rows @ [b1, b2])"
  using assms by (induction rows) simp_all

lemma call_step_check:
  assumes "getAvailableSlots st (req_service r) (req_bookingDate r) = Inr slots"
    and "find (\<lambda>sl. time sl = req_bookingTime r) slots = Some sl"
    and "available sl"
  shows "call_step st (new_call r uid new_id now) =
     ((new_call r uid new_id now)\<lparr>call_phase := AwaitingInsert\<rparr>, st)"
  using assms by (simp add: call_step_def new_call_def)

lemma call_step_insert:
  "call_step st ((new_call r uid new_id now)\<lparr>call_phase := AwaitingInsert\<rparr>) =
     ((new_call r uid new_id now)\<lparr>call_phase := Returned (fst (create st new_id now r uid))\<rparr>,
      snd (create st new_id now r uid))"
  by (simp add: call_step_def new_call_def split: prod.splits)

lemma single_call_createBooking:
  "run_schedule st [new_call r uid new_id now] [0, 0] =
     (snd (createBooking st new_id now r uid),
      [(new_call r uid new_id now)\<lparr>call_phase := Returned (fst (createBooking st new_id now r uid))\<rparr>])"
  by (simp add: call_step_def new_call_def createBooking_def split: sum.splits option.splits prod.splits)

lemma create_twice:
  assumes "find (\<lambda>s. name s = req_service r) (services st) = Some svc"
  shows "\<exists>b1 b2. create st id1 now1 r uid1 = (Inr b1, st\<lparr>bookings := bookings st @ [b1]\<rparr>)
     \<and> create (st\<lparr>bookings := bookings st @ [b1]\<rparr>) id2 now2 r uid2
         = (Inr b2, st\<lparr>bookings := bookings st @ [b1, b2]\<rparr>)
     \<and> booking_id b1 = id1 \<and> booking_id b2 = id2
     \<and> status b1 = Pending \<and> status b2 = Pending \<and> same_slot b1 b2"
proof -
  from create_Some [OF assms, where new_id = id1 and now = now1 and uid = uid1] obtain b1 where
    b1: "create st id1 now1 r uid1 = (Inr b1, st\<lparr>bookings := bookings st @ [b1]\<rparr>)"
      "booking_id b1 = id1" "service b1 = req_service r" "booking_date b1 = req_bookingDate r"
      "booking_time b1 = req_bookingTime r" "status b1 = Pending"
    by blast
  let ?st1 = "st\<lparr>bookings := bookings st @ [b1]\<rparr>"
  have "find (\<lambda>s. name s = req_service r) (services ?st1) = Some svc"
    using assms by simp
  from create_Some [OF this, where new_id = id2 and now = now2 and uid = uid2] obtain b2 where
    b2: "create ?st1 id2 now2 r uid2 = (Inr b2, ?st1\<lparr>bookings := bookings ?st1 @ [b2]\<rparr>)"
      "booking_id b2 = id2" "service b2 = req_service r" "booking_date b2 = req_bookingDate r"
      "booking_time b2 = req_bookingTime r" "status b2 = Pending"
    by blast
  have "?st1\<lparr>bookings := bookings ?st1 @ [b2]\<rparr> = st\<lparr>bookings := bookings st @ [b1, b2]\<rparr>"
    by simp
  with b1 b2 show ?thesis
    by (auto simp: same_slot_def)
qed

text \<open>
  C7. Two calls for the same service, date and time whose slot is free: scheduled as
  check, check, insert, insert, both pass the slot check on the unchanged store before
  either inserts, both inserts succeed, and the store ends with two pending bookings of
  the same slot: it is double-booked. (\<open>single_call_createBooking\<close>: a call run alone is
  \<open>createBooking\<close>; \<open>sequential_second_rejected\<close>: run one after the other, with positive
  durations, the second call is rejected.)
\<close>

theorem createBooking_race:
  assumes "getAvailableSlots st (req_service r) (req_bookingDate r) = Inr slots"
    and "find (\<lambda>sl. time sl = req_bookingTime r) slots = Some sl"
    and "available sl"
  shows "run_schedule st [new_call r uid1 id1 now1, new_call r uid2 id2 now2] [0, 1] =
           (st, [(new_call r uid1 id1 now1)\<lparr>call_phase := AwaitingInsert\<rparr>,
                 (new_call r uid2 id2 now2)\<lparr>call_phase := AwaitingInsert\<rparr>])
     \<and> (\<exists>b1 b2. run_schedule st [new_call r uid1 id1 now1, new_call r uid2 id2 now2] [0, 1, 0, 1] =
           (st\<lparr>bookings := bookings st @ [b1, b2]\<rparr>,
            [(new_call r uid1 id1 now1)\<lparr>call_phase := Returned (Inr b1)\<rparr>,
             (new_call r uid2 id2 now2)\<lparr>call_phase := Returned (Inr b2)\<rparr>])
         \<and> booking_id b1 = id1 \<and> booking_id b2 = id2
         \<and> status b1 = Pending \<and> status b2 = Pending \<and> same_slot b1 b2
         \<and> double_booked (st\<lparr>bookings := bookings st @ [b1, b2]\<rparr>))"
proof -
  let ?c1 = "new_call r uid1 id1 now1" and ?c2 = "new_call r uid2 id2 now2"
  from slots_of_grid [OF assms(1)] obtain sd where
    "find (\<lambda>s. name s = req_service r \<and> is_active s \<and> is_available_for_booking s) (services st) = Some sd"
    by blast
  from find_named [OF this] obtain svc where
    svc: "find (\<lambda>s. name s = req_service r) (services st) = Some svc" by blast
  from create_twice [OF svc, where ?id1.0 = id1 and ?now1.0 = now1 and ?uid1.0 = uid1 and ?id2.0 = id2 and ?now2.0 = now2 and ?uid2.0 = uid2] obtain b1 b2 where
    c1: "create st id1 now1 r uid1 = (Inr b1, st\<lparr>bookings := bookings st @ [b1]\<rparr>)"
    and c2: "create (st\<lparr>bookings := bookings st @ [b1]\<rparr>) id2 now2 r uid2
         = (Inr b2, st\<lparr>bookings := bookings st @ [b1, b2]\<rparr>)"
    and p: "booking_id b1 = id1" "booking_id b2 = id2" "status b1 = Pending" "status b2 = Pending"
      "same_slot b1 b2"
    by blast
  have chk: "run_schedule st [?c1, ?c2] [0, 1] =
      (st, [?c1\<lparr>call_phase := AwaitingInsert\<rparr>, ?c2\<lparr>call_phase := AwaitingInsert\<rparr>])"
    by (simp add: call_step_check [OF assms])
  have ins: "run_schedule st [?c1, ?c2] [0, 1, 0, 1] =
      (st\<lparr>bookings := bookings st @ [b1, b2]\<rparr>,
       [?c1\<lparr>call_phase := Returned (Inr b1)\<rparr>, ?c2\<lparr>call_phase := Returned (Inr b2)\<rparr>])"
    by (simp add: call_step_check [OF assms] call_step_insert c1 c2)
  have "occupies b1" "occupies b2" using p by (simp_all add: occupies_def)
  then have "double_booked (st\<lparr>bookings := bookings st @ [b1, b2]\<rparr>)"
    using p(5) by (simp add: double_booked_def double_booked_append)
  with chk ins p show ?thesis by blast
qed

lemma call_step_returned:
  "call_step st (c\<lparr>call_phase := Returned res\<rparr>) = (c\<lparr>call_phase := Returned res\<rparr>, st)"
  by (simp add: call_step_def)

lemma find_Some_mem:
  assumes "find P xs = Some x"
  shows "x \<in> set xs \<and> P x"
  using assms by (induction xs) (auto split: if_splits)

lemma call_step_reject:
  assumes "fst (createBooking st new_id now r uid) = Inl e"
  shows "call_step st (new_call r uid new_id now) =
     ((new_call r uid new_id now)\<lparr>call_phase := Returned (Inl e)\<rparr>, st)"
proof (cases "getAvailableSlots st (req_service r) (req_bookingDate r)")
  case (Inl e')
  with assms show ?thesis by (simp add: call_step_def new_call_def createBooking_def)
next
  case (Inr slots)
  show ?thesis
  proof (cases "find (\<lambda>sl. time sl = req_bookingTime r) slots")
    case None
    with Inr assms show ?thesis by (simp add: call_step_def new_call_def createBooking_def)
  next
    case (Some sl)
    show ?thesis
    proof (cases "available sl")
      case False
      with Inr Some assms show ?thesis by (simp add: call_step_def new_call_def createBooking_def)
    next
      case True
      from createBooking_inserts [OF Inr Some True, of new_id now uid] assms
      show ?thesis by auto
    qed
  qed
qed

lemma grid_hour_ex:
  assumes "t \<in> set spec_grid"
  shows "\<exists>S. parseInt (split_colon_0 t) = Some (of_int S)"
proof -
  from assms obtain i where "i < length spec_grid" "t = spec_grid ! i"
    by (auto simp: in_set_conv_nth)
  moreover have "length spec_grid = 8" by (simp add: spec_grid_def)
  ultimately have "parseInt (split_colon_0 t) = Some (of_int (9 + int i))"
    using grid_hour_nth [of i] by simp
  then show ?thesis ..
qed

text \<open>
  One call after the other: with positive durations the second call is rejected, since
  the first booking now occupies the slot.
\<close>

lemma sequential_second_rejected:
  assumes free: "getAvailableSlots st (req_service r) (req_bookingDate r) = Inr slots"
      "find (\<lambda>sl. time sl = req_bookingTime r) slots = Some sl" "available sl"
    and sd: "find (\<lambda>s. name s = req_service r \<and> is_active s \<and> is_available_for_booking s) (services st) = Some sd"
    and svc: "find (\<lambda>s. name s = req_service r) (services st) = Some svc"
    and pos: "0 < estimated_duration sd" "0 < estimated_duration svc"
  shows "\<exists>b1. run_schedule st [new_call r uid1 id1 now1, new_call r uid2 id2 now2] [0, 0, 1, 1] =
           (st\<lparr>bookings := bookings st @ [b1]\<rparr>,
            [(new_call r uid1 id1 now1)\<lparr>call_phase := Returned (Inr b1)\<rparr>,
             (new_call r uid2 id2 now2)\<lparr>call_phase := Returned (Inl SlotUnavailable)\<rparr>])"
proof -
  let ?c1 = "new_call r uid1 id1 now1" and ?c2 = "new_call r uid2 id2 now2"
  from create_Some [OF svc, where new_id = id1 and now = now1 and uid = uid1] obtain b1 where
    c1: "create st id1 now1 r uid1 = (Inr b1, st\<lparr>bookings := bookings st @ [b1]\<rparr>)"
    and b1: "service b1 = req_service r" "booking_date b1 = req_bookingDate r"
      "booking_time b1 = req_bookingTime r" "status b1 = Pending"
      "duration b1 = estimated_duration svc"
    by blast
  let ?st1 = "st\<lparr>bookings := bookings st @ [b1]\<rparr>"
  have grid: "req_bookingTime r \<in> set spec_grid"
  proof -
    from slots_of_grid [OF free(1)] have "time ` set slots = set spec_grid"
      by (auto simp: image_iff)
    moreover have "req_bookingTime r \<in> time ` set slots"
    proof -
      from find_Some_mem [OF free(2)] have m: "sl \<in> set slots" and t: "time sl = req_bookingTime r"
        by simp_all
      from m have "time sl \<in> time ` set slots" by (rule imageI)
      then show ?thesis unfolding t .
    qed
    ultimately show ?thesis by simp
  qed
  then obtain S where S: "parseInt (split_colon_0 (req_bookingTime r)) = Some (of_int S)"
    using grid_hour_ex by blast
  have sd1: "find (\<lambda>s. name s = req_service r \<and> is_active s \<and> is_available_for_booking s) (services ?st1) = Some sd"
    using sd by simp
  have h: "parseInt (split_colon_0 (time \<lparr>time = req_bookingTime r, available = True\<rparr>)) = Some (of_int S)"
    using S by simp
  have o: "spec_overlap S (estimated_duration sd) S (duration b1)"
    using pos b1(5) by (simp add: spec_overlap_def)
  have conflict: "hasConflict (estimated_duration sd)
      (existingBookings ?st1 (req_service r) (req_bookingDate r))
      \<lparr>time = req_bookingTime r, available = True\<rparr>"
    unfolding hasConflict_iff [OF h]
    using b1 S o by (intro bexI [of _ b1]) auto
  have rej: "fst (createBooking ?st1 id2 now2 r uid2) = Inl SlotUnavailable"
    unfolding createBooking_unfold sd1 using conflict by simp
  have s1: "call_step st ?c1 = (?c1\<lparr>call_phase := AwaitingInsert\<rparr>, st)"
    by (rule call_step_check [OF free])
  have s2: "call_step st (?c1\<lparr>call_phase := AwaitingInsert\<rparr>) =
      (?c1\<lparr>call_phase := Returned (Inr b1)\<rparr>, ?st1)"
    by (simp add: call_step_insert c1)
  have s3: "call_step ?st1 ?c2 = (?c2\<lparr>call_phase := Returned (Inl SlotUnavailable)\<rparr>, ?st1)"
    by (rule call_step_reject [OF rej])
  have s4: "call_step ?st1 (?c2\<lparr>call_phase := Returned (Inl SlotUnavailable)\<rparr>) =
      (?c2\<lparr>call_phase := Returned (Inl SlotUnavailable)\<rparr>, ?st1)"
    by (rule call_step_returned)
  show ?thesis
    by (intro exI [of _ b1]) (simp add: s1 s2 s3 s4)
qed

lemma demo_request_fields:
  "req_service demo_request = ''Lock Installation''" "req_bookingDate demo_request = (2024, 3, 15)"
  "req_bookingTime demo_request = ''12:00''"
  by (simp_all add: demo_request_def)

theorem createBooking_race_witness:
  "getAvailableSlots demo_db (req_service demo_request) (req_bookingDate demo_request) =
       Inr [\<lparr>time = ''09:00'', available = False\<rparr>, \<lparr>time = ''10:00'', available = False\<rparr>,
            \<lparr>time = ''11:00'', available = False\<rparr>, \<lparr>time = ''12:00'', available = True\<rparr>,
            \<lparr>time = ''13:00'', available = True\<rparr>, \<lparr>time = ''14:00'', available = True\<rparr>,
            \<lparr>time = ''15:00'', available = True\<rparr>, \<lparr>time = ''16:00'', available = True\<rparr>]
   \<and> (\<exists>b1 b2. run_schedule demo_db
         [new_call demo_request None ''b2'' 2, new_call demo_request None ''b3'' 3] [0, 1, 0, 1] =
           (demo_db\<lparr>bookings := [demo_booking, b1, b2]\<rparr>,
            [(new_call demo_request None ''b2'' 2)\<lparr>call_phase := Returned (Inr b1)\<rparr>,
             (new_call demo_request None ''b3'' 3)\<lparr>call_phase := Returned (Inr b2)\<rparr>])
         \<and> booking_id b1 = ''b2'' \<and> booking_id b2 = ''b3'' \<and> same_slot b1 b2
         \<and> double_booked (demo_db\<lparr>bookings := [demo_booking, b1, b2]\<rparr>))
   \<and> (\<exists>b1. run_schedule demo_db
         [new_call demo_request None ''b2'' 2, new_call demo_request None ''b3'' 3] [0, 0, 1, 1] =
           (demo_db\<lparr>bookings := [demo_booking, b1]\<rparr>,
            [(new_call demo_request None ''b2'' 2)\<lparr>call_phase := Returned (Inr b1)\<rparr>,
             (new_call demo_request None ''b3'' 3)\<lparr>call_phase := Returned (Inl SlotUnavailable)\<rparr>]))"
proof -
  have g: "getAvailableSlots demo_db (req_service demo_request) (req_bookingDate demo_request) =
       Inr [\<lparr>time = ''09:00'', available = False\<rparr>, \<lparr>time = ''10:00'', available = False\<rparr>,
            \<lparr>time = ''11:00'', available = False\<rparr>, \<lparr>time = ''12:00'', available = True\<rparr>,
            \<lparr>time = ''13:00'', available = True\<rparr>, \<lparr>time = ''14:00'', available = True\<rparr>,
            \<lparr>time = ''15:00'', available = True\<rparr>, \<lparr>time = ''16:00'', available = True\<rparr>]"
    using demo_slots by (simp add: demo_request_fields)
  have a: "available \<lparr>time = ''12:00'', available = True\<rparr>" by simp
  have bk: "bookings demo_db @ [b1, b2] = [demo_booking, b1, b2]"
    "bookings demo_db @ [b1] = [demo_booking, b1]" for b1 b2
    by (simp_all add: demo_db_def)
  have race: "\<exists>b1 b2. run_schedule demo_db
         [new_call demo_request None ''b2'' 2, new_call demo_request None ''b3'' 3] [0, 1, 0, 1] =
           (demo_db\<lparr>bookings := [demo_booking, b1, b2]\<rparr>,
            [(new_call demo_request None ''b2'' 2)\<lparr>call_phase := Returned (Inr b1)\<rparr>,
             (new_call demo_request None ''b3'' 3)\<lparr>call_phase := Returned (Inr b2)\<rparr>])
         \<and> booking_id b1 = ''b2'' \<and> booking_id b2 = ''b3'' \<and> same_slot b1 b2
         \<and> double_booked (demo_db\<lparr>bookings := [demo_booking, b1, b2]\<rparr>)"
    using createBooking_race [OF g demo_slot_1200 a, of None "''b2''" 2 None "''b3''" 3]
    unfolding bk by blast
  have d: "0 < estimated_duration demo_service" by (simp add: demo_service_def)
  have seq: "\<exists>b1. run_schedule demo_db
         [new_call demo_request None ''b2'' 2, new_call demo_request None ''b3'' 3] [0, 0, 1, 1] =
           (demo_db\<lparr>bookings := [demo_booking, b1]\<rparr>,
            [(new_call demo_request None ''b2'' 2)\<lparr>call_phase := Returned (Inr b1)\<rparr>,
             (new_call demo_request None ''b3'' 3)\<lparr>call_phase := Returned (Inl SlotUnavailable)\<rparr>])"
    using sequential_second_rejected [OF g demo_slot_1200 a
        demo_find_active [folded demo_request_fields(1)] demo_find_named [folded demo_request_fields(1)]
        d d, of None "''b2''" 2 None "''b3''" 3]
    unfolding bk .
  from g race seq show ?thesis by (intro conjI)
qed

end
